theory Spec2Isabelle
  imports Complex_Main "HOL-Library.Word"
begin

section \<open>JavaScript strings\<close>

text \<open>
  A JavaScript string is a finite sequence of 16-bit code units; \<open>length\<close>,
  \<open>substring\<close>, \<open>trim\<close>, \<open>split\<close> and a regular expression
  without the \<open>u\<close> flag all work on code units. A literal of the source is written
  \<open>js ''...''\<close>.
\<close>

type_synonym code_unit = "16 word"
type_synonym jsstring = "code_unit list"

definition js :: "string \<Rightarrow> jsstring" where
  "js s = map of_char s"

text \<open>
  \<open>WhiteSpace\<close> and \<open>LineTerminator\<close> of ECMAScript: what \<open>trim\<close> strips and what
  \<open>\s\<close> matches.
\<close>

definition isWhiteSpace :: "code_unit \<Rightarrow> bool" where
  "isWhiteSpace c \<longleftrightarrow>
     c = 0x0009 \<or> c = 0x000A \<or> c = 0x000B \<or> c = 0x000C \<or> c = 0x000D \<or> c = 0x0020 \<or>
     c = 0x00A0 \<or> c = 0x1680 \<or> (0x2000 \<le> c \<and> c \<le> 0x200A) \<or> c = 0x2028 \<or> c = 0x2029 \<or>
     c = 0x202F \<or> c = 0x205F \<or> c = 0x3000 \<or> c = 0xFEFF"

definition trimStart :: "jsstring \<Rightarrow> jsstring" where
  "trimStart s = dropWhile isWhiteSpace s"

definition trimEnd :: "jsstring \<Rightarrow> jsstring" where
  "trimEnd s = rev (dropWhile isWhiteSpace (rev s))"

definition trim :: "jsstring \<Rightarrow> jsstring" where
  "trim s = trimEnd (trimStart s)"

text \<open>
  \<open>s.substring(start, end)\<close> for non-negative integer arguments: both are clamped to the
  length and swapped when \<open>start\<close> exceeds \<open>end\<close>.
\<close>

definition substring :: "jsstring \<Rightarrow> nat \<Rightarrow> nat \<Rightarrow> jsstring" where
  "substring s start end =
     (let len = length s;
          finalStart = min start len;
          finalEnd = min end len;
          from = min finalStart finalEnd;
          to = max finalStart finalEnd
      in take (to - from) (drop from s))"

text \<open>
  \<open>s.replace(/[...]/g, replacement)\<close> for a pattern that is one character class and a
  replacement without \<open>$\<close>: every code unit of the class gives way to the replacement.
\<close>

definition replaceAllClass :: "(code_unit \<Rightarrow> bool) \<Rightarrow> jsstring \<Rightarrow> jsstring \<Rightarrow> jsstring" where
  "replaceAllClass cls replacement s = concat (map (\<lambda>c. if cls c then replacement else [c]) s)"

text \<open>\<open>s.split(sep)\<close> for a separator of one code unit; the result is never empty.\<close>

fun split :: "code_unit \<Rightarrow> jsstring \<Rightarrow> jsstring list" where
  "split sep [] = [[]]"
| "split sep (c # cs) =
     (if c = sep then [] # split sep cs
      else (case split sep cs of [] \<Rightarrow> [[c]] | piece # pieces \<Rightarrow> (c # piece) # pieces))"

text \<open>
  \<open>s.toLowerCase()\<close>. On a string of ASCII code units it maps \<open>A\<close>..\<open>Z\<close> to
  \<open>a\<close>..\<open>z\<close> and nothing else. Beyond ASCII it follows the Unicode case tables, which
  are the engine's: they are the parameter \<open>unicodeLower\<close>.
\<close>

definition asciiLower :: "code_unit \<Rightarrow> code_unit" where
  "asciiLower c = (if 0x41 \<le> c \<and> c \<le> 0x5A then c + 0x20 else c)"

definition toLowerCase :: "(jsstring \<Rightarrow> jsstring) \<Rightarrow> jsstring \<Rightarrow> jsstring" where
  "toLowerCase unicodeLower s =
     (if list_all (\<lambda>c. c < 0x80) s then map asciiLower s else unicodeLower s)"

section \<open>Regular expressions\<close>

text \<open>
  The patterns of the source are built from character classes, concatenation, \<open>?\<close>,
  \<open>+\<close> and \<open>{m,n}\<close>, anchored by \<open>^\<close> and \<open>$\<close> with no flag, so
  \<open>test\<close> decides whether the whole string is in the language. The matcher takes
  derivatives, one code unit at a time.
\<close>

datatype regex =
    Never
  | Empty
  | Class "code_unit \<Rightarrow> bool"
  | Alt regex regex
  | Cat regex regex
  | Star regex

fun nullable :: "regex \<Rightarrow> bool" where
  "nullable Never = False"
| "nullable Empty = True"
| "nullable (Class cls) = False"
| "nullable (Alt r s) = (nullable r \<or> nullable s)"
| "nullable (Cat r s) = (nullable r \<and> nullable s)"
| "nullable (Star r) = True"

fun alt :: "regex \<Rightarrow> regex \<Rightarrow> regex" where
  "alt Never s = s"
| "alt r Never = r"
| "alt r s = Alt r s"

fun cat :: "regex \<Rightarrow> regex \<Rightarrow> regex" where
  "cat Never s = Never"
| "cat r Never = Never"
| "cat Empty s = s"
| "cat r Empty = r"
| "cat r s = Cat r s"

fun deriv :: "code_unit \<Rightarrow> regex \<Rightarrow> regex" where
  "deriv c Never = Never"
| "deriv c Empty = Never"
| "deriv c (Class cls) = (if cls c then Empty else Never)"
| "deriv c (Alt r s) = alt (deriv c r) (deriv c s)"
| "deriv c (Cat r s) =
     (if nullable r then alt (cat (deriv c r) s) (deriv c s) else cat (deriv c r) s)"
| "deriv c (Star r) = cat (deriv c r) (Star r)"

definition test :: "regex \<Rightarrow> jsstring \<Rightarrow> bool" where
  "test r s = nullable (foldl (\<lambda>r c. deriv c r) r s)"

text \<open>
  What a pattern matches as a whole, as a set of strings, and the strings that are
  repetitions of strings of a set. The matcher decides membership (\<open>test_matched\<close>
  below).
\<close>

inductive_set repeated :: "jsstring set \<Rightarrow> jsstring set" for A :: "jsstring set" where
  none: "[] \<in> repeated A"
| more: "u \<in> A \<Longrightarrow> v \<in> repeated A \<Longrightarrow> u @ v \<in> repeated A"

fun matched :: "regex \<Rightarrow> jsstring set" where
  "matched Never = {}"
| "matched Empty = {[]}"
| "matched (Class cls) = {[c] | c. cls c}"
| "matched (Alt r s) = matched r \<union> matched s"
| "matched (Cat r s) = {u @ v | u v. u \<in> matched r \<and> v \<in> matched s}"
| "matched (Star r) = repeated (matched r)"

definition optional :: "regex \<Rightarrow> regex" where
  "optional r = Alt Empty r"

definition oneOrMore :: "regex \<Rightarrow> regex" where
  "oneOrMore r = Cat r (Star r)"

text \<open>\<open>r{0,n}\<close> and \<open>r{m,n}\<close> (for \<open>m \<le> n\<close>).\<close>

fun atMost :: "nat \<Rightarrow> regex \<Rightarrow> regex" where
  "atMost 0 r = Empty"
| "atMost (Suc n) r = optional (Cat r (atMost n r))"

fun between :: "nat \<Rightarrow> nat \<Rightarrow> regex \<Rightarrow> regex" where
  "between 0 n r = atMost n r"
| "between (Suc m) n r = Cat r (between m (n - 1) r)"

definition isDigit :: "code_unit \<Rightarrow> bool" where
  "isDigit c \<longleftrightarrow> 0x30 \<le> c \<and> c \<le> 0x39"

text \<open>\<open>/^[^\s@]+@[^\s@]+\.[^\s@]+$/\<close>, used by the form and by the endpoint.\<close>

definition emailRegex :: regex where
  "emailRegex =
     (let notSpaceAt = Class (\<lambda>c. \<not> isWhiteSpace c \<and> c \<noteq> 0x40)
      in Cat (oneOrMore notSpaceAt)
          (Cat (Class (\<lambda>c. c = 0x40))
            (Cat (oneOrMore notSpaceAt)
              (Cat (Class (\<lambda>c. c = 0x2E)) (oneOrMore notSpaceAt)))))"

text \<open>\<open>/^\+?[\d\s\-()]{7,15}$/\<close>.\<close>

definition phoneRegex :: regex where
  "phoneRegex =
     Cat (optional (Class (\<lambda>c. c = 0x2B)))
       (between 7 15
         (Class (\<lambda>c. isDigit c \<or> isWhiteSpace c \<or> c = 0x2D \<or> c = 0x28 \<or> c = 0x29)))"

section \<open>Rate limiter of the email endpoint\<close>

text \<open>
  \<open>emailAttempts\<close> is a \<open>Map<string, number[]>\<close>; the model passes it in and returns it.
  \<open>now\<close> is the reading of \<open>Date.now()\<close>, an integer number of milliseconds.
  A rejected call returns before \<open>emailAttempts.set\<close>, so it leaves the map as it was.
\<close>

type_synonym ledger = "jsstring \<rightharpoonup> int list"

definition isRateLimited :: "int \<Rightarrow> jsstring \<Rightarrow> ledger \<Rightarrow> bool \<times> ledger" where
  "isRateLimited now email emailAttempts =
     (let attempts = (case emailAttempts email of None \<Rightarrow> [] | Some a \<Rightarrow> a);
          recentAttempts = filter (\<lambda>time. now - time < 3600000) attempts
      in if length recentAttempts \<ge> 3 then (True, emailAttempts)
         else (False, emailAttempts(email \<mapsto> recentAttempts @ [now])))"

text \<open>Successive calls for one address, at the given clock readings.\<close>

fun calls :: "int list \<Rightarrow> jsstring \<Rightarrow> ledger \<Rightarrow> bool list \<times> ledger" where
  "calls [] email m = ([], m)"
| "calls (now # rest) email m =
     (let (r, m') = isRateLimited now email m;
          (rs, m'') = calls rest email m'
      in (r # rs, m''))"

text \<open>The ledgers the process can hold: it starts empty and only \<open>isRateLimited\<close> writes it.\<close>

inductive reachable :: "ledger \<Rightarrow> bool" where
  start: "reachable Map.empty"
| step: "reachable m \<Longrightarrow> reachable (snd (isRateLimited now email m))"

section \<open>The email endpoint: sanitization and the template\<close>

text \<open>
  \<open>input.trim().replace(/[<>]/g, '').substring(0, 500)\<close>
\<close>

definition sanitizeInput :: "jsstring \<Rightarrow> jsstring" where
  "sanitizeInput input =
     substring (replaceAllClass (\<lambda>c. c = 0x3C \<or> c = 0x3E) [] (trim input)) 0 500"

text \<open>
  The sanitization as the specification words it: trim, strip the characters \<open><\<close> and
  \<open>>\<close>, truncate to 500 characters. Trimming is written here from the end of the
  string first.
\<close>

definition spec_trim :: "jsstring \<Rightarrow> jsstring" where
  "spec_trim s = dropWhile isWhiteSpace (rev (dropWhile isWhiteSpace (rev s)))"

definition spec_strip :: "jsstring \<Rightarrow> jsstring" where
  "spec_strip s = filter (\<lambda>c. c \<noteq> of_char CHR ''<'' \<and> c \<noteq> of_char CHR ''>'') s"

definition spec_truncate :: "nat \<Rightarrow> jsstring \<Rightarrow> jsstring" where
  "spec_truncate n s = take n s"

definition spec_sanitize :: "jsstring \<Rightarrow> jsstring" where
  "spec_sanitize s = spec_truncate 500 (spec_strip (spec_trim s))"

text \<open>
  The template literal of \<open>getEmailTemplate\<close>, cut at its two substitutions. The
  characters outside ASCII are given by their code units.
\<close>

definition templateHead :: jsstring where
  \<open>templateHead =
     js ''
<!DOCTYPE html>
<html lang="en">
<head>
    <meta charset="UTF-8">
    <meta name="viewport" content="width=device-width, initial-scale=1.0">
    <title>Welcome to Mimora</title>
</head>
<body style="margin: 0; padding: 0; font-family: -apple-system, BlinkMacSystemFont, 'Segoe UI', Roboto, 'Helvetica Neue', Arial, sans-serif; background-color: #f5f5f5;">
    <table role="presentation" style="width: 100%; border-collapse: collapse;">
        <tr>
            <td align="center" style="padding: 40px 20px;">
                <table role="presentation" style="max-width: 600px; width: 100%; background-color: #ffffff; border-radius: 16px; overflow: hidden; box-shadow: 0 4px 20px rgba(0,0,0,0.08);">
                    <!-- Header -->
                    <tr>
                        <td style="background: linear-gradient(135deg, #E84A7F 0%, #d43d6f 100%); padding: 40px 30px; text-align: center;">
                            <h1 style="margin: 0; color: #ffffff; font-size: 28px; font-weight: 700; letter-spacing: -0.5px;">
                                Welcome to Mimora! ''
     @ [0xD83C, 0xDF89]
     @ js ''
                            </h1>
                        </td>
                    </tr>
                    
                    <!-- Content -->
                    <tr>
                        <td style="padding: 40px 30px;">
                            <p style="margin: 0 0 20px; color: #1E1E1E; font-size: 18px; font-weight: 600;">
                                Hi ''\<close>

definition templateMiddle :: jsstring where
  \<open>templateMiddle =
     js '',
                            </p>
                            
                            <p style="margin: 0 0 20px; color: #666; font-size: 16px; line-height: 1.6;">
                                Thank you for joining the Mimora waitlist! We're thrilled to have you as part of our community.
                            </p>
                            
                            <p style="margin: 0 0 20px; color: #666; font-size: 16px; line-height: 1.6;">
                                You've successfully registered as a <strong style="color: #E84A7F;">''\<close>

definition templateTail :: jsstring where
  \<open>templateTail =
     js ''</strong>, and we'll keep you updated on our launch progress.
                            </p>
                            
                            <!-- What's Next Box -->
                            <table role="presentation" style="width: 100%; background-color: #FFF0F5; border-radius: 12px; margin: 30px 0; border-left: 4px solid #E84A7F;">
                                <tr>
                                    <td style="padding: 24px;">
                                        <h2 style="margin: 0 0 16px; color: #1E1E1E; font-size: 18px; font-weight: 600;">
                                            What's Next?
                                        </h2>
                                        <ul style="margin: 0; padding-left: 20px; color: #666; font-size: 15px; line-height: 1.8;">
                                            <li>We'll notify you as soon as we launch</li>
                                            <li>Get exclusive early access to our platform</li>
                                            <li>Be the first to experience beauty services on your terms</li>
                                        </ul>
                                    </td>
                                </tr>
                            </table>
                            
                            <p style="margin: 0 0 20px; color: #666; font-size: 16px; line-height: 1.6;">
                                Stay tuned for updates, and feel free to reach out if you have any questions!
                            </p>
                            
                            <p style="margin: 30px 0 0; color: #666; font-size: 16px; line-height: 1.6;">
                                Best regards,<br>
                                <strong style="color: #1E1E1E;">The Mimora Team</strong>
                            </p>
                        </td>
                    </tr>
                    
                    <!-- Footer -->
                    <tr>
                        <td style="background-color: #FAFAFA; padding: 30px; text-align: center; border-top: 1px solid #E5E5E5;">
                            <p style="margin: 0 0 12px; color: #999; font-size: 14px;">
                                Chennai, Tamil Nadu, India
                            </p>
                            <p style="margin: 0 0 12px; color: #999; font-size: 14px;">
                                <a href="mailto:support@mimora.co.in" style="color: #E84A7F; text-decoration: none;">support@mimora.co.in</a> ''
     @ [0x2022]
     @ js '' 
                                <a href="tel:+919677248878" style="color: #E84A7F; text-decoration: none;">+91 96772 48878</a>
                            </p>
                            <p style="margin: 0; color: #aaa; font-size: 12px;">
                                ''
     @ [0x00A9]
     @ js '' 2025 Mimora. All rights reserved.
                            </p>
                        </td>
                    </tr>
                </table>
            </td>
        </tr>
    </table>
</body>
</html>
    ''\<close>

text \<open>
  \<open>xs[0]\<close> in a template literal: the first element, and the text \<open>undefined\<close>
  for an empty array.
\<close>

definition first_piece :: "jsstring list \<Rightarrow> jsstring" where
  "first_piece pieces = (case pieces of [] \<Rightarrow> js ''undefined'' | piece # _ \<Rightarrow> piece)"

definition firstName :: "jsstring \<Rightarrow> jsstring" where
  "firstName name = first_piece (split 0x20 name)"

definition roleText :: "jsstring \<Rightarrow> jsstring" where
  "roleText role =
     (if role = js ''artist'' then js ''Artist / Service Provider'' else js ''Customer'')"

definition getEmailTemplate :: "jsstring \<Rightarrow> jsstring \<Rightarrow> jsstring" where
  "getEmailTemplate name role =
     trim (templateHead @ firstName name @ templateMiddle @ roleText role @ templateTail)"

text \<open>The angle brackets of a text, in their order: what can open or close a tag.\<close>

definition angleBrackets :: "jsstring \<Rightarrow> jsstring" where
  "angleBrackets s = filter (\<lambda>c. c = 0x3C \<or> c = 0x3E) s"

section \<open>JavaScript values, errors and JSON\<close>

text \<open>
  The values a parsed JSON text or an object literal of the source can hold. A number is
  kept by its exact value; rounding to a double is not modelled. An object is the list of
  its properties in the order they were written; where a key comes twice, the later one
  counts.
\<close>

datatype jsvalue =
    Undefined
  | Null
  | Boolean bool
  | Number rat
  | String jsstring
  | Array "jsvalue list"
  | Object "(jsstring \<times> jsvalue) list"

fun truthy :: "jsvalue \<Rightarrow> bool" where
  "truthy Undefined = False"
| "truthy Null = False"
| "truthy (Boolean b) = b"
| "truthy (Number q) = (q \<noteq> 0)"
| "truthy (String s) = (s \<noteq> [])"
| "truthy (Array xs) = True"
| "truthy (Object ms) = True"

text \<open>
  What a \<open>throw\<close> carries. \<open>TypeError\<close>, \<open>SyntaxError\<close> and \<open>StorageError\<close> are
  raised by the engine and the browser, with a message of their choosing;
  \<open>ErrorWith m\<close> is an \<open>Error\<close> object made with the message \<open>m\<close>;
  \<open>NotAnError\<close> is a thrown value that is no instance of \<open>Error\<close>.
\<close>

datatype thrown = TypeError | SyntaxError | StorageError | ErrorWith jsstring | NotAnError

text \<open>
  What the engine supplies and this development does not model: the Unicode case tables,
  the printing of numbers, and the messages of the engine's own errors.
\<close>

record engine =
  unicodeLower :: "jsstring \<Rightarrow> jsstring"
  numberToString :: "rat \<Rightarrow> jsstring"
  nativeMessage :: "thrown \<Rightarrow> jsstring"

fun instanceofError :: "thrown \<Rightarrow> bool" where
  "instanceofError NotAnError = False"
| "instanceofError e = True"

fun messageOf :: "engine \<Rightarrow> thrown \<Rightarrow> jsstring" where
  "messageOf eng (ErrorWith m) = m"
| "messageOf eng e = nativeMessage eng e"

text \<open>
  \<open>value.key\<close>, for the keys this program reads (\<open>name\<close>, \<open>email\<close>, \<open>role\<close>,
  \<open>error\<close>, \<open>message\<close>): none of them is inherited from a prototype, so a value that is
  no object has none of them, and \<open>null\<close> and \<open>undefined\<close> raise a \<open>TypeError\<close>.
\<close>

fun getProp :: "jsvalue \<Rightarrow> jsstring \<Rightarrow> thrown + jsvalue" where
  "getProp Undefined key = Inl TypeError"
| "getProp Null key = Inl TypeError"
| "getProp (Object ms) key =
     Inr (case map_of (rev ms) key of None \<Rightarrow> Undefined | Some v \<Rightarrow> v)"
| "getProp v key = Inr Undefined"

fun join :: "jsstring \<Rightarrow> jsstring list \<Rightarrow> jsstring" where
  "join sep [] = []"
| "join sep [x] = x"
| "join sep (x # y # rest) = x @ sep @ join sep (y # rest)"


subsection \<open>JSON.stringify\<close>

definition isHighSurrogate :: "code_unit \<Rightarrow> bool" where
  "isHighSurrogate c \<longleftrightarrow> 0xD800 \<le> c \<and> c \<le> 0xDBFF"

definition isLowSurrogate :: "code_unit \<Rightarrow> bool" where
  "isLowSurrogate c \<longleftrightarrow> 0xDC00 \<le> c \<and> c \<le> 0xDFFF"

definition hexDigit :: "code_unit \<Rightarrow> code_unit" where
  "hexDigit d = (if d < 10 then 0x30 + d else 0x61 + (d - 10))"

text \<open>\<open>\uXXXX\<close> with lower-case digits.\<close>

definition unicodeEscape :: "code_unit \<Rightarrow> jsstring" where
  "unicodeEscape c =
     [0x5C, 0x75, hexDigit (c div 0x1000), hexDigit (c div 0x100 mod 0x10),
      hexDigit (c div 0x10 mod 0x10), hexDigit (c mod 0x10)]"

definition escapeUnit :: "code_unit \<Rightarrow> jsstring" where
  "escapeUnit c =
     (if c = 0x08 then [0x5C, 0x62]
      else if c = 0x09 then [0x5C, 0x74]
      else if c = 0x0A then [0x5C, 0x6E]
      else if c = 0x0C then [0x5C, 0x66]
      else if c = 0x0D then [0x5C, 0x72]
      else if c = 0x22 then [0x5C, 0x22]
      else if c = 0x5C then [0x5C, 0x5C]
      else if c < 0x20 \<or> isHighSurrogate c \<or> isLowSurrogate c then unicodeEscape c
      else [c])"

text \<open>A surrogate pair is copied; a surrogate on its own is escaped.\<close>

fun quoteUnits :: "jsstring \<Rightarrow> jsstring" where
  "quoteUnits [] = []"
| "quoteUnits [c] = escapeUnit c"
| "quoteUnits (c # d # rest) =
     (if isHighSurrogate c \<and> isLowSurrogate d then c # d # quoteUnits rest
      else escapeUnit c @ quoteUnits (d # rest))"

definition quoteJSONString :: "jsstring \<Rightarrow> jsstring" where
  "quoteJSONString s = [0x22] @ quoteUnits s @ [0x22]"

fun serialize :: "engine \<Rightarrow> jsvalue \<Rightarrow> jsstring" where
  "serialize eng Undefined = js ''null''"
| "serialize eng Null = js ''null''"
| "serialize eng (Boolean b) = (if b then js ''true'' else js ''false'')"
| "serialize eng (Number q) = numberToString eng q"
| "serialize eng (String s) = quoteJSONString s"
| "serialize eng (Array xs) = js ''['' @ join (js '','') (map (serialize eng) xs) @ js '']''"
| "serialize eng (Object ms) =
     js ''{'' @
     join (js '','')
       (map (\<lambda>(k, v). quoteJSONString k @ js '':'' @ serialize eng v)
          (filter (\<lambda>(k, v). v \<noteq> Undefined) ms)) @
     js ''}''"

text \<open>\<open>JSON.stringify(value)\<close>; \<open>None\<close> is \<open>undefined\<close>.\<close>

definition JSON_stringify :: "engine \<Rightarrow> jsvalue \<Rightarrow> jsstring option" where
  "JSON_stringify eng v = (if v = Undefined then None else Some (serialize eng v))"

subsection \<open>JSON.parse\<close>

text \<open>
  The text is cut into tokens, and the tokens are read by a machine with a stack of the
  arrays and objects that are still open. Every failure is the \<open>SyntaxError\<close> of
  \<open>JSON.parse\<close>.
\<close>

datatype token =
    LBrace | RBrace | LBracket | RBracket | Colon | Comma
  | StringToken jsstring
  | NumberToken rat
  | TrueToken | FalseToken | NullToken

definition isJSONWhiteSpace :: "code_unit \<Rightarrow> bool" where
  "isJSONWhiteSpace c \<longleftrightarrow> c = 0x20 \<or> c = 0x09 \<or> c = 0x0A \<or> c = 0x0D"

definition hexValue :: "code_unit \<Rightarrow> nat option" where
  "hexValue c =
     (if 0x30 \<le> c \<and> c \<le> 0x39 then Some (unat c - 0x30)
      else if 0x61 \<le> c \<and> c \<le> 0x66 then Some (unat c - 0x61 + 10)
      else if 0x41 \<le> c \<and> c \<le> 0x46 then Some (unat c - 0x41 + 10)
      else None)"

text \<open>The character after a backslash, other than \<open>u\<close>.\<close>

definition unescape :: "code_unit \<Rightarrow> code_unit option" where
  "unescape e =
     (if e = 0x22 \<or> e = 0x5C \<or> e = 0x2F then Some e
      else if e = 0x62 then Some 0x08
      else if e = 0x66 then Some 0x0C
      else if e = 0x6E then Some 0x0A
      else if e = 0x72 then Some 0x0D
      else if e = 0x74 then Some 0x09
      else None)"

text \<open>
  The string that starts after an opening quote: its value and the number of code units
  read, the closing quote included.
\<close>

fun scanString :: "jsstring \<Rightarrow> jsstring \<Rightarrow> nat \<Rightarrow> (jsstring \<times> nat) option" where
  "scanString [] acc n = None"
| "scanString (c # cs) acc n =
     (if c = 0x22 then Some (rev acc, Suc n)
      else if c = 0x5C then
        (case cs of
           [] \<Rightarrow> None
         | e # cs' \<Rightarrow>
             if e = 0x75 then
               (case cs' of
                  h1 # h2 # h3 # h4 # cs'' \<Rightarrow>
                    (case (hexValue h1, hexValue h2, hexValue h3, hexValue h4) of
                       (Some a, Some b, Some c', Some d) \<Rightarrow>
                         scanString cs'' (of_nat (((a * 16 + b) * 16 + c') * 16 + d) # acc) (n + 6)
                     | _ \<Rightarrow> None)
                | _ \<Rightarrow> None)
             else
               (case unescape e of
                  None \<Rightarrow> None
                | Some u \<Rightarrow> scanString cs' (u # acc) (n + 2)))
      else if c < 0x20 then None
      else scanString cs (c # acc) (Suc n))"

definition isNumberChar :: "code_unit \<Rightarrow> bool" where
  "isNumberChar c \<longleftrightarrow>
     isDigit c \<or> c = 0x2D \<or> c = 0x2B \<or> c = 0x2E \<or> c = 0x65 \<or> c = 0x45"

definition digitsValue :: "jsstring \<Rightarrow> nat" where
  "digitsValue ds = foldl (\<lambda>v d. 10 * v + (unat d - 0x30)) 0 ds"

text \<open>
  A number: \<open>-?(0|[1-9][0-9]*)(\.[0-9]+)?([eE][+-]?[0-9]+)?\<close>, and nothing after it.
\<close>

definition parseNumber :: "jsstring \<Rightarrow> rat option" where
  "parseNumber lexeme =
     (let negative = (case lexeme of [] \<Rightarrow> False | c # _ \<Rightarrow> c = 0x2D);
          s1 = (if negative then tl lexeme else lexeme);
          whole = takeWhile isDigit s1;
          s2 = dropWhile isDigit s1;
          hasFraction = (case s2 of [] \<Rightarrow> False | c # _ \<Rightarrow> c = 0x2E);
          fraction = (if hasFraction then takeWhile isDigit (tl s2) else []);
          s3 = (if hasFraction then dropWhile isDigit (tl s2) else s2);
          hasExponent = (case s3 of [] \<Rightarrow> False | c # _ \<Rightarrow> c = 0x65 \<or> c = 0x45);
          s4 = (if hasExponent then tl s3 else s3);
          exponentNegative = (case s4 of [] \<Rightarrow> False | c # _ \<Rightarrow> hasExponent \<and> c = 0x2D);
          exponentSigned = (case s4 of [] \<Rightarrow> False | c # _ \<Rightarrow> hasExponent \<and> (c = 0x2D \<or> c = 0x2B));
          exponentDigits = (if exponentSigned then tl s4 else s4);
          wholeOk = (case whole of [] \<Rightarrow> False | d # ds \<Rightarrow> ds = [] \<or> d \<noteq> 0x30);
          fractionOk = (fraction \<noteq> [] \<or> \<not> hasFraction);
          exponentOk = (if hasExponent then exponentDigits \<noteq> [] \<and> list_all isDigit exponentDigits
                        else s3 = []);
          mantissa = of_nat (digitsValue (whole @ fraction)) :: rat;
          e10 = (if exponentNegative then - int (digitsValue exponentDigits)
                 else int (if hasExponent then digitsValue exponentDigits else 0))
                - int (length fraction);
          magnitude = (if 0 \<le> e10 then mantissa * 10 ^ nat e10 else mantissa / 10 ^ nat (- e10))
      in if wholeOk \<and> fractionOk \<and> exponentOk
         then Some (if negative then - magnitude else magnitude)
         else None)"

definition emit :: "token \<Rightarrow> token list option \<Rightarrow> token list option" where
  "emit t rest = map_option (\<lambda>ts. t # ts) rest"

text \<open>
  The tokens of a text. The first argument is the number of code units still to skip:
  those of the token that has just been read.
\<close>

fun lex :: "nat \<Rightarrow> jsstring \<Rightarrow> token list option" where
  "lex skip [] = Some []"
| "lex (Suc skip) (c # cs) = lex skip cs"
| "lex 0 (c # cs) =
     (if isJSONWhiteSpace c then lex 0 cs
      else if c = 0x7B then emit LBrace (lex 0 cs)
      else if c = 0x7D then emit RBrace (lex 0 cs)
      else if c = 0x5B then emit LBracket (lex 0 cs)
      else if c = 0x5D then emit RBracket (lex 0 cs)
      else if c = 0x3A then emit Colon (lex 0 cs)
      else if c = 0x2C then emit Comma (lex 0 cs)
      else if c = 0x22 then
        (case scanString cs [] 0 of
           None \<Rightarrow> None
         | Some (s, n) \<Rightarrow> emit (StringToken s) (lex n cs))
      else if c = 0x2D \<or> isDigit c then
        (case parseNumber (takeWhile isNumberChar (c # cs)) of
           None \<Rightarrow> None
         | Some q \<Rightarrow>
             emit (NumberToken q) (lex (length (takeWhile isNumberChar (c # cs)) - 1) cs))
      else if take 4 (c # cs) = js ''true'' then emit TrueToken (lex 3 cs)
      else if take 5 (c # cs) = js ''false'' then emit FalseToken (lex 4 cs)
      else if take 4 (c # cs) = js ''null'' then emit NullToken (lex 3 cs)
      else None)"

datatype frame =
    InArray "jsvalue list"
  | InObject "(jsstring \<times> jsvalue) list"
  | InMember "(jsstring \<times> jsvalue) list" jsstring

datatype expecting =
    WantValue
  | WantValueOrEnd
  | WantKey
  | WantKeyOrEnd
  | WantColon jsstring
  | Have jsvalue

fun startValue :: "frame list \<Rightarrow> token \<Rightarrow> (frame list \<times> expecting) option" where
  "startValue stack LBracket = Some (InArray [] # stack, WantValueOrEnd)"
| "startValue stack LBrace = Some (InObject [] # stack, WantKeyOrEnd)"
| "startValue stack (StringToken s) = Some (stack, Have (String s))"
| "startValue stack (NumberToken q) = Some (stack, Have (Number q))"
| "startValue stack TrueToken = Some (stack, Have (Boolean True))"
| "startValue stack FalseToken = Some (stack, Have (Boolean False))"
| "startValue stack NullToken = Some (stack, Have Null)"
| "startValue stack t = None"

fun step :: "frame list \<times> expecting \<Rightarrow> token \<Rightarrow> (frame list \<times> expecting) option" where
  "step (stack, WantValue) t = startValue stack t"
| "step (InArray es # stack, WantValueOrEnd) RBracket = Some (stack, Have (Array (rev es)))"
| "step (stack, WantValueOrEnd) t = startValue stack t"
| "step (stack, WantKey) (StringToken k) = Some (stack, WantColon k)"
| "step (stack, WantKeyOrEnd) (StringToken k) = Some (stack, WantColon k)"
| "step (InObject ms # stack, WantKeyOrEnd) RBrace = Some (stack, Have (Object (rev ms)))"
| "step (InObject ms # stack, WantColon k) Colon = Some (InMember ms k # stack, WantValue)"
| "step (InArray es # stack, Have v) Comma = Some (InArray (v # es) # stack, WantValue)"
| "step (InArray es # stack, Have v) RBracket = Some (stack, Have (Array (rev (v # es))))"
| "step (InMember ms k # stack, Have v) Comma = Some (InObject ((k, v) # ms) # stack, WantKey)"
| "step (InMember ms k # stack, Have v) RBrace = Some (stack, Have (Object (rev ((k, v) # ms))))"
| "step s t = None"

fun readTokens :: "frame list \<times> expecting \<Rightarrow> token list \<Rightarrow> (frame list \<times> expecting) option" where
  "readTokens s [] = Some s"
| "readTokens s (t # ts) = (case step s t of None \<Rightarrow> None | Some s' \<Rightarrow> readTokens s' ts)"

definition JSON_parse :: "jsstring \<Rightarrow> thrown + jsvalue" where
  "JSON_parse text =
     (case lex 0 text of
        None \<Rightarrow> Inl SyntaxError
      | Some tokens \<Rightarrow>
          (case readTokens ([], WantValue) tokens of
             Some ([], Have v) \<Rightarrow> Inr v
           | _ \<Rightarrow> Inl SyntaxError))"

text \<open>
  An engine for the examples. Its errors all carry the message \<open>engine error\<close>; the
  examples lower-case ASCII strings only and print no number.
\<close>

definition exampleEngine :: engine where
  "exampleEngine =
     \<lparr>unicodeLower = (\<lambda>s. s), numberToString = (\<lambda>q. js ''0''),
      nativeMessage = (\<lambda>e. js ''engine error'')\<rparr>"

section \<open>Network and browser storage\<close>

text \<open>
  \<open>fetch\<close> is the environment's: a function from the request to what comes back.
  It rejects, or it resolves with a status and a body; reading the body can fail too.
\<close>

record http_request =
  url :: jsstring
  httpMethod :: jsstring
  headers :: "(jsstring \<times> jsstring) list"
  requestBody :: "jsstring option"

datatype body_read = BodyText jsstring | BodyFailure thrown

datatype fetch_result = Rejected thrown | Resolved nat body_read

text \<open>\<open>response.ok\<close>: the status is in the range 200 to 299.\<close>

definition statusOk :: "nat \<Rightarrow> bool" where
  "statusOk status \<longleftrightarrow> 200 \<le> status \<and> status \<le> 299"


text \<open>
  \<open>localStorage\<close>: either the browser refuses every access to it (\<open>getItem\<close> and
  \<open>setItem\<close> throw), or it is a map from keys to strings.
\<close>

datatype storage = Unavailable | Available "jsstring \<rightharpoonup> jsstring"

fun getItem :: "storage \<Rightarrow> jsstring \<Rightarrow> thrown + jsstring option" where
  "getItem Unavailable key = Inl StorageError"
| "getItem (Available items) key = Inr (items key)"

fun setItem :: "storage \<Rightarrow> jsstring \<Rightarrow> jsstring \<Rightarrow> thrown + storage" where
  "setItem Unavailable key v = Inl StorageError"
| "setItem (Available items) key v = Inr (Available (items(key \<mapsto> v)))"

section \<open>The email endpoint\<close>

text \<open>\<open>process.env\<close>: each variable is a string or is not set.\<close>

record process_env =
  SMTP_USER :: "jsstring option"
  SMTP_PASS :: "jsstring option"
  SMTP_HOST :: "jsstring option"
  SMTP_PORT :: "jsstring option"
  FROM_NAME :: "jsstring option"
  FROM_EMAIL :: "jsstring option"
  NODE_ENV :: "jsstring option"

text \<open>\<open>process.env.X || fallback\<close>, and \<open>!process.env.X\<close>: the empty string is falsy.\<close>

definition orElse :: "jsstring option \<Rightarrow> jsstring \<Rightarrow> jsstring" where
  "orElse v fallback = (case v of None \<Rightarrow> fallback | Some s \<Rightarrow> if s = [] then fallback else s)"

definition unset :: "jsstring option \<Rightarrow> bool" where
  "unset v \<longleftrightarrow> (case v of None \<Rightarrow> True | Some s \<Rightarrow> s = [])"

text \<open>
  \<open>parseInt(s)\<close> with no radix: leading white space, a sign, \<open>0x\<close> for base 16, then
  the longest run of digits; \<open>None\<close> is \<open>NaN\<close>.
\<close>

definition parseInt :: "jsstring \<Rightarrow> int option" where
  "parseInt s =
     (let t = trimStart s;
          negative = (case t of [] \<Rightarrow> False | c # _ \<Rightarrow> c = 0x2D);
          signed = (case t of [] \<Rightarrow> False | c # _ \<Rightarrow> c = 0x2D \<or> c = 0x2B);
          u = (if signed then tl t else t);
          hex = (take 2 u = js ''0x'' \<or> take 2 u = js ''0X'');
          digits = (if hex then takeWhile (\<lambda>c. hexValue c \<noteq> None) (drop 2 u)
                    else takeWhile isDigit u);
          v = (if hex then foldl (\<lambda>v d. 16 * v + (case hexValue d of None \<Rightarrow> 0 | Some h \<Rightarrow> h)) 0 digits
               else digitsValue digits)
      in if digits = [] then None else Some (if negative then - int v else int v))"

text \<open>
  The request as the handler reads it: \<open>req.method\<close>, \<open>req.headers.origin\<close> and
  \<open>req.body\<close> (\<open>Undefined\<close> when the request has no body).
\<close>

record request =
  requestMethod :: "jsstring option"
  origin :: "jsstring option"
  body :: jsvalue

text \<open>
  The response: the status, the headers set, and the body (\<open>None\<close> after \<open>end()\<close>, the
  value given to \<open>json\<close> otherwise).
\<close>

record response =
  status :: nat
  responseHeaders :: "(jsstring \<times> jsstring) list"
  responseBody :: "jsvalue option"

text \<open>What is given to nodemailer: the transport options and the message.\<close>

record transport =
  host :: jsstring
  port :: "int option"
  secure :: bool
  authUser :: "jsstring option"
  authPass :: "jsstring option"

record mail =
  sender :: jsstring
  recipient :: jsstring
  subject :: jsstring
  html :: jsstring

definition allowedOrigins :: "jsstring list" where
  "allowedOrigins = [js ''https://mimora.co.in'', js ''https://www.mimora.co.in'']"

definition corsHeaders :: "request \<Rightarrow> (jsstring \<times> jsstring) list" where
  "corsHeaders req =
     (let origin = (case origin req of None \<Rightarrow> [] | Some v \<Rightarrow> v)
      in (if origin \<in> set allowedOrigins then [(js ''Access-Control-Allow-Origin'', origin)] else []) @
         [(js ''Access-Control-Allow-Methods'', js ''POST, OPTIONS''),
          (js ''Access-Control-Allow-Headers'', js ''Content-Type''),
          (js ''Access-Control-Max-Age'', js ''86400'')])"

definition errorBody :: "jsstring \<Rightarrow> jsvalue" where
  "errorBody msg = Object [(js ''error'', String msg)]"

text \<open>\<open>sanitizeInput(v)\<close> on a value of the body: \<open>v.trim\<close> is a function only on a string.\<close>

fun sanitizeValue :: "jsvalue \<Rightarrow> thrown + jsstring" where
  "sanitizeValue (String s) = Inr (sanitizeInput s)"
| "sanitizeValue v = Inl TypeError"

text \<open>
  The \<open>try\<close> block of the handler. \<open>sendMail\<close> is the mail relay: \<open>None\<close> when it
  resolves, the exception when it rejects. \<open>now\<close> is \<open>Date.now()\<close>. The ledger is
  returned with the outcome: an attempt that was recorded stays recorded when
  \<open>sendMail\<close> fails afterwards.
\<close>

definition handler_try ::
  "engine \<Rightarrow> process_env \<Rightarrow> (transport \<Rightarrow> mail \<Rightarrow> thrown option) \<Rightarrow> int \<Rightarrow> request \<Rightarrow> ledger
     \<Rightarrow> (thrown + nat \<times> jsvalue) \<times> ledger" where
  "handler_try eng env sendMail now req emailAttempts =
     (case (getProp (body req) (js ''name''), getProp (body req) (js ''email''),
            getProp (body req) (js ''role'')) of
        (Inr name, Inr email, Inr role) \<Rightarrow>
          if \<not> truthy name \<or> \<not> truthy email \<or> \<not> truthy role
          then (Inr (400, errorBody (js ''Missing required fields'')), emailAttempts)
          else
            (case (sanitizeValue name, sanitizeValue email, sanitizeValue role) of
               (Inr sanitizedName, Inr sanitized, Inr sanitizedRole) \<Rightarrow>
                 (let sanitizedEmail = toLowerCase (unicodeLower eng) sanitized
                  in if \<not> test emailRegex sanitizedEmail
                     then (Inr (400, errorBody (js ''Invalid email format'')), emailAttempts)
                     else if sanitizedRole \<notin> set [js ''artist'', js ''customer'']
                     then (Inr (400, errorBody (js ''Invalid role'')), emailAttempts)
                     else if length sanitizedName < 2 \<or> length sanitizedName > 100
                     then (Inr (400, errorBody (js ''Invalid name length'')), emailAttempts)
                     else
                       (case isRateLimited now sanitizedEmail emailAttempts of
                          (True, emailAttempts') \<Rightarrow>
                            (Inr (429, errorBody (js ''Too many requests. Please try again later.'')),
                             emailAttempts')
                        | (False, emailAttempts') \<Rightarrow>
                            (case sendMail
                                    \<lparr>host = orElse (SMTP_HOST env) (js ''smtp.gmail.com''),
                                     port = parseInt (orElse (SMTP_PORT env) (js ''587'')),
                                     secure = False,
                                     authUser = SMTP_USER env,
                                     authPass = SMTP_PASS env\<rparr>
                                    \<lparr>sender = js ''\"'' @ orElse (FROM_NAME env) (js ''Mimora Team'') @
                                        js ''\" <'' @
                                        orElse (FROM_EMAIL env)
                                          (case SMTP_USER env of None \<Rightarrow> js ''undefined'' | Some u \<Rightarrow> u) @
                                        js ''>'',
                                     recipient = sanitizedEmail,
                                     subject = js ''Welcome to Mimora - You're on the Waitlist! '' @
                                        [0xD83C, 0xDF89],
                                     html = getEmailTemplate sanitizedName sanitizedRole\<rparr> of
                               Some e \<Rightarrow> (Inl e, emailAttempts')
                             | None \<Rightarrow>
                                 (Inr (200, Object [(js ''success'', Boolean True),
                                          (js ''message'', String (js ''Email sent successfully''))]),
                                  emailAttempts'))))
             | (Inl e, _, _) \<Rightarrow> (Inl e, emailAttempts)
             | (_, Inl e, _) \<Rightarrow> (Inl e, emailAttempts)
             | (_, _, Inl e) \<Rightarrow> (Inl e, emailAttempts))
      | (Inl e, _, _) \<Rightarrow> (Inl e, emailAttempts)
      | (_, Inl e, _) \<Rightarrow> (Inl e, emailAttempts)
      | (_, _, Inl e) \<Rightarrow> (Inl e, emailAttempts))"

text \<open>
  The \<open>catch\<close> of the handler: the details of the error are given in development mode
  only; an \<open>undefined\<close> message is a property that \<open>json\<close> leaves out.
\<close>

definition failureBody :: "engine \<Rightarrow> process_env \<Rightarrow> thrown \<Rightarrow> jsvalue" where
  "failureBody eng env e =
     Object ((js ''error'', String (js ''Failed to send email'')) #
       (if NODE_ENV env = Some (js ''development'')
        then [(js ''details'',
               if instanceofError e then String (messageOf eng e) else Undefined)]
        else []))"

definition handler ::
  "engine \<Rightarrow> process_env \<Rightarrow> (transport \<Rightarrow> mail \<Rightarrow> thrown option) \<Rightarrow> int \<Rightarrow> request \<Rightarrow> ledger
     \<Rightarrow> response \<times> ledger" where
  "handler eng env sendMail now req emailAttempts =
     (if requestMethod req = Some (js ''OPTIONS'')
      then (\<lparr>status = 200, responseHeaders = corsHeaders req, responseBody = None\<rparr>, emailAttempts)
      else if requestMethod req \<noteq> Some (js ''POST'')
      then (\<lparr>status = 405, responseHeaders = corsHeaders req,
             responseBody = Some (errorBody (js ''Method not allowed''))\<rparr>, emailAttempts)
      else if unset (SMTP_USER env) \<or> unset (SMTP_PASS env)
      then (\<lparr>status = 500, responseHeaders = corsHeaders req,
             responseBody = Some (errorBody (js ''Server configuration error''))\<rparr>, emailAttempts)
      else
        (case handler_try eng env sendMail now req emailAttempts of
           (Inr (code, payload), emailAttempts') \<Rightarrow>
             (\<lparr>status = code, responseHeaders = corsHeaders req, responseBody = Some payload\<rparr>,
              emailAttempts')
         | (Inl e, emailAttempts') \<Rightarrow>
             (\<lparr>status = 500, responseHeaders = corsHeaders req,
               responseBody = Some (failureBody eng env e)\<rparr>, emailAttempts')))"

section \<open>The email service of the client\<close>






section \<open>The waitlist form\<close>

definition WAITLIST_STORAGE_KEY :: jsstring where
  "WAITLIST_STORAGE_KEY = js ''mimora_waitlist_submitted''"

text \<open>
  The shape the interface \<open>StoredWaitlistData\<close> declares: an object whose \<open>name\<close>,
  \<open>email\<close> and \<open>submittedAt\<close> are strings.
\<close>

fun isString :: "jsvalue \<Rightarrow> bool" where
  "isString (String s) = True"
| "isString v = False"

fun isStoredWaitlistData :: "jsvalue \<Rightarrow> bool" where
  "isStoredWaitlistData (Object ms) =
     (case (getProp (Object ms) (js ''name''), getProp (Object ms) (js ''email''),
            getProp (Object ms) (js ''submittedAt'')) of
        (Inr n, Inr e, Inr t) \<Rightarrow> isString n \<and> isString e \<and> isString t
      | _ \<Rightarrow> False)"
| "isStoredWaitlistData v = False"

text \<open>The body of the \<open>try\<close> of \<open>getStoredSubmission\<close>, then the function with its \<open>catch\<close>.\<close>

definition getStoredSubmission_try :: "storage \<Rightarrow> thrown + jsvalue" where
  "getStoredSubmission_try localStorage =
     (case getItem localStorage WAITLIST_STORAGE_KEY of
        Inl e \<Rightarrow> Inl e
      | Inr None \<Rightarrow> Inr Null
      | Inr (Some raw) \<Rightarrow> if raw = [] then Inr Null else JSON_parse raw)"

definition getStoredSubmission :: "storage \<Rightarrow> thrown + jsvalue" where
  "getStoredSubmission localStorage =
     (case getStoredSubmission_try localStorage of
        Inl e \<Rightarrow> Inr Null
      | Inr v \<Rightarrow> Inr v)"

text \<open>
  \<open>storeSubmission\<close>; \<open>isoNow\<close> is what \<open>new Date().toISOString()\<close> returns. Nothing
  catches what \<open>setItem\<close> throws.
\<close>

definition storeSubmission ::
  "engine \<Rightarrow> jsstring \<Rightarrow> storage \<Rightarrow> jsstring \<Rightarrow> jsstring \<Rightarrow> thrown + storage" where
  "storeSubmission eng isoNow localStorage name email =
     (let data = Object [(js ''name'', String name), (js ''email'', String email),
                         (js ''submittedAt'', String isoNow)]
      in setItem localStorage WAITLIST_STORAGE_KEY
           (case JSON_stringify eng data of None \<Rightarrow> js ''undefined'' | Some t \<Rightarrow> t))"

datatype category = Artist | Customer | Unselected

datatype field = NameField | EmailField | PhoneField | CategoryField

record FormData =
  name :: jsstring
  email :: jsstring
  phone :: jsstring
  category :: category

text \<open>
  \<open>FormErrors\<close>: the keys that were assigned, in the order of their assignment, each
  with its message. \<open>Object.keys(errors).length\<close> is the length of the list.
\<close>

type_synonym FormErrors = "(field \<times> jsstring) list"

definition HUBSPOT_PORTAL_ID :: jsstring where
  "HUBSPOT_PORTAL_ID = js ''48937342''"

definition HUBSPOT_FORM_ID :: jsstring where
  "HUBSPOT_FORM_ID = js ''2b2cd336-c7dc-4726-80c6-9801ea114f17''"

text \<open>
  The request of \<open>submitToHubSpot\<close>: its URL, its payload and the options given to
  \<open>fetch\<close>. \<open>href\<close> is \<open>window.location.href\<close>.
\<close>

definition hubSpotUrl :: jsstring where
  "hubSpotUrl = js ''https://api.hsforms.com/submissions/v3/integration/submit/'' @
                HUBSPOT_PORTAL_ID @ js ''/'' @ HUBSPOT_FORM_ID"

definition hubSpotPayload :: "jsstring \<Rightarrow> FormData \<Rightarrow> jsvalue" where
  "hubSpotPayload href data =
     Object
       [(js ''fields'', Array
          [Object [(js ''name'', String (js ''firstname'')), (js ''value'', String (name data))],
           Object [(js ''name'', String (js ''email'')), (js ''value'', String (email data))],
           Object [(js ''name'', String (js ''phone'')), (js ''value'', String (phone data))],
           Object [(js ''name'', String (js ''what_best_describes_you'')),
                   (js ''value'', String
                      (if category data = Artist then js ''Artist''
                       else if category data = Customer then js ''Customer'' else []))]]),
        (js ''context'', Object
          [(js ''pageUri'', String href),
           (js ''pageName'', String (js ''Waitlist Landing Page''))])]"

definition hubSpotRequest :: "engine \<Rightarrow> jsstring \<Rightarrow> FormData \<Rightarrow> http_request" where
  "hubSpotRequest eng href data =
     \<lparr>url = hubSpotUrl, httpMethod = js ''POST'',
      headers = [(js ''Content-Type'', js ''application/json'')],
      requestBody = JSON_stringify eng (hubSpotPayload href data)\<rparr>"

text \<open>
  \<open>submitToHubSpot\<close>: the \<open>try\<close> around \<open>fetch\<close> turns a rejection into
  \<open>false\<close>. The result is a sum, so that an exception leaving the function would show
  as \<open>Inl\<close>.
\<close>

definition submitToHubSpot ::
  "engine \<Rightarrow> (http_request \<Rightarrow> fetch_result) \<Rightarrow> jsstring \<Rightarrow> FormData \<Rightarrow> thrown + bool" where
  "submitToHubSpot eng fetch href data =
     (case fetch (hubSpotRequest eng href data) of
        Rejected e \<Rightarrow> Inr False
      | Resolved code content \<Rightarrow> Inr (statusOk code))"

definition validate :: "FormData \<Rightarrow> FormErrors" where
  "validate data =
     (if trim (name data) = [] then [(NameField, js ''Name is required'')]
      else if length (trim (name data)) < 2
        then [(NameField, js ''Name must be at least 2 characters'')]
      else []) @
     (if trim (email data) = [] then [(EmailField, js ''Email is required'')]
      else if \<not> test emailRegex (email data)
        then [(EmailField, js ''Enter a valid email address'')]
      else []) @
     (if trim (phone data) = [] then [(PhoneField, js ''Phone number is required'')]
      else if \<not> test phoneRegex (trim (phone data))
        then [(PhoneField, js ''Enter a valid phone number'')]
      else []) @
     (if category data = Unselected then [(CategoryField, js ''Please select a category'')]
      else [])"

text \<open>The state of \<open>WaitlistSlider\<close>: its \<open>useState\<close> cells.\<close>

record slider =
  formData :: FormData
  errors :: FormErrors
  touched :: "field set"
  isSubmitting :: bool
  isSuccess :: bool
  categoryOpen :: bool
  alreadyJoined :: jsvalue

text \<open>What the component renders: \<open>alreadyJoined ? ... : isSuccess ? ... : form\<close>.\<close>

datatype display = AlreadyJoined | Success | Form

definition shown :: "slider \<Rightarrow> display" where
  "shown s = (if truthy (alreadyJoined s) then AlreadyJoined
              else if isSuccess s then Success else Form)"

text \<open>
  \<open>handleSubmit\<close> up to its \<open>await\<close>: the new state, and whether the submission goes
  on (validation passed).
\<close>

definition handleSubmit_begin :: "slider \<Rightarrow> slider \<times> bool" where
  "handleSubmit_begin s =
     (let validationErrors = validate (formData s);
          s1 = s\<lparr>touched := {NameField, EmailField, PhoneField, CategoryField},
                 errors := validationErrors\<rparr>
      in if length validationErrors > 0 then (s1, False)
         else (s1\<lparr>isSubmitting := True\<rparr>, True))"

text \<open>
  \<open>handleSubmit\<close> after the \<open>await\<close>, with the result \<open>ok\<close> of \<open>submitToHubSpot\<close>.
  An exception of \<open>storeSubmission\<close> leaves the handler: the third component.
\<close>

definition handleSubmit_resume ::
  "engine \<Rightarrow> jsstring \<Rightarrow> bool \<Rightarrow> slider \<Rightarrow> storage \<Rightarrow> slider \<times> storage \<times> thrown option" where
  "handleSubmit_resume eng isoNow ok s localStorage =
     (let s2 = s\<lparr>isSubmitting := False\<rparr>
      in if ok then
           (case storeSubmission eng isoNow localStorage (name (formData s)) (email (formData s)) of
              Inl e \<Rightarrow> (s2, localStorage, Some e)
            | Inr localStorage' \<Rightarrow> (s2\<lparr>isSuccess := True\<rparr>, localStorage', None))
         else
           (case storeSubmission eng isoNow localStorage (name (formData s)) (email (formData s)) of
              Inl e \<Rightarrow> (s2, localStorage, Some e)
            | Inr localStorage' \<Rightarrow> (s2\<lparr>isSuccess := True\<rparr>, localStorage', None)))"

definition handleSubmit ::
  "engine \<Rightarrow> (http_request \<Rightarrow> fetch_result) \<Rightarrow> jsstring \<Rightarrow> jsstring \<Rightarrow> slider \<Rightarrow> storage
     \<Rightarrow> slider \<times> storage \<times> thrown option" where
  "handleSubmit eng fetch href isoNow s localStorage =
     (case handleSubmit_begin s of
        (s1, False) \<Rightarrow> (s1, localStorage, None)
      | (s1, True) \<Rightarrow>
          (case submitToHubSpot eng fetch href (formData s) of
             Inl e \<Rightarrow> (s1, localStorage, Some e)
           | Inr ok \<Rightarrow> handleSubmit_resume eng isoNow ok s1 localStorage))"

section \<open>Values for the examples\<close>

text \<open>
  An environment with the relay credentials configured and one without; a \<open>POST\<close> from
  an allowed origin with a given body; the body of the specification's example (email
  \<open>jo@x.com\<close>) with a given name and role; a relay that accepts every message and one
  that refuses every message.
\<close>

definition configuredEnv :: process_env where
  "configuredEnv =
     \<lparr>SMTP_USER = Some (js ''mailer@mimora.co.in''), SMTP_PASS = Some (js ''secret''),
      SMTP_HOST = None, SMTP_PORT = None, FROM_NAME = None, FROM_EMAIL = None,
      NODE_ENV = Some (js ''production'')\<rparr>"

definition unconfiguredEnv :: process_env where
  "unconfiguredEnv =
     \<lparr>SMTP_USER = None, SMTP_PASS = None,
      SMTP_HOST = None, SMTP_PORT = None, FROM_NAME = None, FROM_EMAIL = None,
      NODE_ENV = Some (js ''production'')\<rparr>"

definition postRequest :: "jsvalue \<Rightarrow> request" where
  "postRequest content =
     \<lparr>requestMethod = Some (js ''POST''), origin = Some (js ''https://mimora.co.in''),
      body = content\<rparr>"

definition joPayload :: "jsvalue \<Rightarrow> jsvalue \<Rightarrow> jsvalue" where
  "joPayload userName userRole =
     Object [(js ''name'', userName), (js ''email'', String (js ''jo@x.com'')),
             (js ''role'', userRole)]"

definition acceptingRelay :: "transport \<Rightarrow> mail \<Rightarrow> thrown option" where
  "acceptingRelay t m = None"

definition refusingRelay :: "transport \<Rightarrow> mail \<Rightarrow> thrown option" where
  "refusingRelay t m = Some (ErrorWith (js ''connect ECONNREFUSED''))"

text \<open>A form that passes validation, in a slider that shows the form.\<close>

definition validForm :: FormData where
  "validForm =
     \<lparr>name = js ''Jo'', email = js ''jo@x.com'', phone = js ''+91 98765 43210'',
      category = Artist\<rparr>"

definition openSlider :: slider where
  "openSlider =
     \<lparr>formData = validForm, errors = [], touched = {}, isSubmitting = False,
      isSuccess = False, categoryOpen = False, alreadyJoined = Null\<rparr>"

section \<open>The matcher decides the language of the pattern\<close>

lemma nullable_matched: "nullable r \<longleftrightarrow> [] \<in> matched r"
  by (induction r) (auto intro: repeated.none)

lemma matched_alt: "matched (alt r s) = matched r \<union> matched s"
  by (induction r s rule: alt.induct) auto

lemma matched_cat: "matched (cat r s) = {u @ v | u v. u \<in> matched r \<and> v \<in> matched s}"
  by (induction r s rule: cat.induct) auto

lemma repeated_step:
  "c # w \<in> repeated A \<longleftrightarrow> (\<exists>u v. w = u @ v \<and> c # u \<in> A \<and> v \<in> repeated A)"
proof
  assume "c # w \<in> repeated A"
  then show "\<exists>u v. w = u @ v \<and> c # u \<in> A \<and> v \<in> repeated A"
  proof (induction "c # w" arbitrary: w rule: repeated.induct)
    case (more u v)
    then show ?case
      by (cases u) auto
  qed
next
  assume "\<exists>u v. w = u @ v \<and> c # u \<in> A \<and> v \<in> repeated A"
  then obtain u v where "w = u @ v" "c # u \<in> A" "v \<in> repeated A" by blast
  then show "c # w \<in> repeated A"
    using repeated.more [of "c # u" A v] by simp
qed

lemma concat_step:
  "c # w \<in> {u @ v | u v. u \<in> A \<and> v \<in> B} \<longleftrightarrow>
     (\<exists>u v. w = u @ v \<and> c # u \<in> A \<and> v \<in> B) \<or> ([] \<in> A \<and> c # w \<in> B)"
proof
  assume "c # w \<in> {u @ v | u v. u \<in> A \<and> v \<in> B}"
  then obtain u v where uv: "c # w = u @ v" "u \<in> A" "v \<in> B" by blast
  show "(\<exists>u v. w = u @ v \<and> c # u \<in> A \<and> v \<in> B) \<or> ([] \<in> A \<and> c # w \<in> B)"
  proof (cases u)
    case Nil
    with uv show ?thesis by simp
  next
    case (Cons a u')
    with uv have "w = u' @ v" "c # u' \<in> A" by simp_all
    with uv(3) show ?thesis by blast
  qed
next
  assume "(\<exists>u v. w = u @ v \<and> c # u \<in> A \<and> v \<in> B) \<or> ([] \<in> A \<and> c # w \<in> B)"
  then show "c # w \<in> {u @ v | u v. u \<in> A \<and> v \<in> B}"
  proof
    assume "\<exists>u v. w = u @ v \<and> c # u \<in> A \<and> v \<in> B"
    then obtain u v where "w = u @ v" "c # u \<in> A" "v \<in> B" by blast
    then have "c # w = (c # u) @ v \<and> c # u \<in> A \<and> v \<in> B" by simp
    then show ?thesis by blast
  next
    assume "[] \<in> A \<and> c # w \<in> B"
    then have "c # w = [] @ (c # w) \<and> [] \<in> A \<and> c # w \<in> B" by simp
    then show ?thesis by blast
  qed
qed

lemma matched_deriv: "w \<in> matched (deriv c r) \<longleftrightarrow> c # w \<in> matched r"
proof (induction r arbitrary: w)
  case (Cat r s)
  have "c # w \<in> matched (Cat r s) \<longleftrightarrow>
      (\<exists>u v. w = u @ v \<and> c # u \<in> matched r \<and> v \<in> matched s) \<or>
      ([] \<in> matched r \<and> c # w \<in> matched s)"
    using concat_step [of c w "matched r" "matched s"] by simp
  then show ?case
    using Cat by (auto simp: matched_alt matched_cat nullable_matched)
next
  case (Star r)
  then show ?case
    by (auto simp: matched_cat repeated_step)
qed (auto simp: matched_alt)

lemma test_matched: "test r s \<longleftrightarrow> s \<in> matched r"
proof -
  have "nullable (foldl (\<lambda>r c. deriv c r) r s) \<longleftrightarrow> s \<in> matched r" for r
    by (induction s arbitrary: r) (simp_all add: nullable_matched matched_deriv)
  then show ?thesis by (simp add: test_def)
qed

section \<open>Properties of the rate limiter\<close>

lemma reachable_length:
  "reachable m \<Longrightarrow> m e = Some ts \<Longrightarrow> length ts \<le> 3"
proof (induction arbitrary: e ts rule: reachable.induct)
  case start
  then show ?case by simp
next
  case (step m now address)
  then show ?case
    by (auto simp: isRateLimited_def Let_def split: if_splits option.splits)
qed

lemma filter_keeps_all:
  "length xs \<le> length (filter P xs) \<Longrightarrow> filter P xs = xs"
  by (metis filter_True length_filter_less not_less)

text \<open>
  C1. For every address with no attempt inside the window yet (none recorded, or all of
  them at least 3,600,000 ms before the first call), four calls whose clock readings lie
  within one window of 3,600,000 ms answer allowed, allowed, allowed, rate-limited. And a
  call for an address whose recorded attempts are all 3,600,000 ms or more in the past (so
  also one recorded 3,700,000 ms ago) is allowed again, whatever their number.
\<close>

theorem isRateLimited_three_per_window:
  "((case emailAttempts address of None \<Rightarrow> True | Some old \<Rightarrow> \<forall>t\<in>set old. 3600000 \<le> t1 - t) \<longrightarrow>
    (\<forall>a\<in>{t1, t2, t3, t4}. \<forall>b\<in>{t1, t2, t3, t4}. a - b < 3600000) \<longrightarrow>
      fst (calls [t1, t2, t3, t4] address emailAttempts) = [False, False, False, True]) \<and>
   (m address = Some ts \<longrightarrow> (\<forall>t\<in>set ts. 3600000 \<le> now - t) \<longrightarrow>
      fst (isRateLimited now address m) = False)"
proof (intro conjI impI)
  assume old: "case emailAttempts address of None \<Rightarrow> True | Some old \<Rightarrow> \<forall>t\<in>set old. 3600000 \<le> t1 - t"
    and window: "\<forall>a\<in>{t1, t2, t3, t4}. \<forall>b\<in>{t1, t2, t3, t4}. a - b < 3600000"
  have "filter (\<lambda>time. t1 - time < 3600000)
          (case emailAttempts address of None \<Rightarrow> [] | Some a \<Rightarrow> a) = []"
    using old by (auto simp: filter_empty_conv split: option.splits)
  then have first: "isRateLimited t1 address emailAttempts = (False, emailAttempts(address \<mapsto> [t1]))"
    by (simp add: isRateLimited_def)
  show "fst (calls [t1, t2, t3, t4] address emailAttempts) = [False, False, False, True]"
    using window by (simp add: first) (simp add: isRateLimited_def)
next
  assume "m address = Some ts" and "\<forall>t\<in>set ts. 3600000 \<le> now - t"
  then have "filter (\<lambda>time. now - time < 3600000) ts = []"
    by (fastforce simp: filter_empty_conv)
  then show "fst (isRateLimited now address m) = False"
    using \<open>m address = Some ts\<close> by (simp add: isRateLimited_def)
qed

theorem isRateLimited_three_per_window_witness:
  "fst (calls [1000, 2000, 3000, 3600999] (js ''jo@x.com'') Map.empty)
     = [False, False, False, True] \<and>
   fst (isRateLimited 3700000 (js ''jo@x.com'') [js ''jo@x.com'' \<mapsto> [0, 0, 0]]) = False"
  using isRateLimited_three_per_window
    [where emailAttempts = Map.empty and address = "js ''jo@x.com''"
       and ?t1.0 = 1000 and ?t2.0 = 2000 and ?t3.0 = 3000 and ?t4.0 = 3600999
       and m = "[js ''jo@x.com'' \<mapsto> [0, 0, 0]]" and ts = "[0, 0, 0]" and now = 3700000]
  by simp

text \<open>
  C4. On every ledger the process can hold, after a call to \<open>isRateLimited\<close> the list
  stored for the address is the pruned list (followed by the current reading when the call
  was allowed), whether the call was allowed or rejected; so no stored entry is 3,600,000 ms
  old or older.
\<close>

theorem isRateLimited_stores_pruned:
  assumes "reachable m"
  shows "snd (isRateLimited now address m) address =
           Some (filter (\<lambda>time. now - time < 3600000)
                   (case m address of None \<Rightarrow> [] | Some a \<Rightarrow> a)
                 @ (if fst (isRateLimited now address m) then [] else [now])) \<and>
         (\<forall>stored. snd (isRateLimited now address m) address = Some stored \<longrightarrow>
            (\<forall>t\<in>set stored. now - t < 3600000))"
proof -
  have stored: "snd (isRateLimited now address m) address =
           Some (filter (\<lambda>time. now - time < 3600000)
                   (case m address of None \<Rightarrow> [] | Some a \<Rightarrow> a)
                 @ (if fst (isRateLimited now address m) then [] else [now]))"
  proof (cases "m address")
    case None
    then show ?thesis by (simp add: isRateLimited_def)
  next
    case (Some ts)
    with assms have "length ts \<le> 3" by (rule reachable_length)
    then show ?thesis
      using Some filter_keeps_all [of ts "\<lambda>time. now - time < 3600000"]
      by (auto simp: isRateLimited_def Let_def)
  qed
  then show ?thesis by auto
qed

theorem isRateLimited_stores_pruned_witness:
  "reachable (snd (calls [0, 10, 20] (js ''jo@x.com'') Map.empty)) \<and>
   isRateLimited 3600015 (js ''jo@x.com'') (snd (calls [0, 10, 20] (js ''jo@x.com'') Map.empty))
     = (False, [js ''jo@x.com'' \<mapsto> [20, 3600015]]) \<and>
   (3600015::int) - 20 < 3600000 \<and> (3600015::int) - 3600015 < 3600000"
proof -
  let ?e = "js ''jo@x.com''"
  let ?m = "snd (calls [0, 10, 20] ?e Map.empty)"
  have "?m = snd (isRateLimited 20 ?e (snd (isRateLimited 10 ?e (snd (isRateLimited 0 ?e Map.empty)))))"
    by (simp add: split_beta)
  then have r: "reachable ?m"
    by (simp only: reachable.intros)
  have v: "isRateLimited 3600015 ?e ?m = (False, [?e \<mapsto> [20, 3600015]])"
    by (simp add: isRateLimited_def)
  have "(3600015::int) - 20 < 3600000 \<and> (3600015::int) - 3600015 < 3600000"
    using isRateLimited_stores_pruned [OF r, of 3600015 ?e] unfolding v by simp
  with r v show ?thesis by (intro conjI) simp_all
qed

section \<open>Properties of the sanitization and of the rendered email\<close>

lemma substring_from_0: "substring s 0 n = take n s"
  by (simp add: substring_def Let_def min_def)

lemma replaceAllClass_delete: "replaceAllClass cls [] s = filter (\<lambda>c. \<not> cls c) s"
  by (induction s) (simp_all add: replaceAllClass_def)

lemma dropWhile_keeps_last:
  "\<not> P x \<Longrightarrow> \<exists>w. dropWhile P (ys @ [x]) = w @ [x]"
  by (induction ys) auto

lemma dropWhile_both_ends:
  "dropWhile P (rev (dropWhile P (rev s))) = rev (dropWhile P (rev (dropWhile P s)))"
proof (cases "dropWhile P s")
  case Nil
  then have all: "\<forall>x\<in>set s. P x" by (simp add: dropWhile_eq_Nil_conv)
  then have a: "dropWhile P (rev s) = []" by (simp add: dropWhile_eq_Nil_conv)
  show ?thesis by (simp only: a Nil rev.simps dropWhile.simps)
next
  case (Cons x xs)
  then have nx: "\<not> P x" using hd_dropWhile [of P s] by simp
  obtain w where w: "dropWhile P (rev xs @ [x]) = w @ [x]"
    using nx dropWhile_keeps_last [of P x "rev xs"] by blast
  have s: "s = takeWhile P s @ x # xs"
    using Cons takeWhile_dropWhile_id [of P s] by simp
  have r: "rev s = (rev xs @ [x]) @ rev (takeWhile P s)"
    by (subst s) simp
  have d: "dropWhile P ((rev xs @ [x]) @ rev (takeWhile P s)) =
      dropWhile P (rev xs @ [x]) @ rev (takeWhile P s)"
    by (rule dropWhile_append1 [of x]) (simp_all add: nx)
  have "dropWhile P (rev s) = (w @ [x]) @ rev (takeWhile P s)"
    by (simp only: r d w)
  then have outer: "rev (dropWhile P (rev s)) = takeWhile P s @ x # rev w"
    by simp
  have "dropWhile P (takeWhile P s @ x # rev w) = dropWhile P (x # rev w)"
    by (rule dropWhile_append2) (blast dest: set_takeWhileD)
  then have left: "dropWhile P (rev (dropWhile P (rev s))) = x # rev w"
    by (simp only: outer) (simp add: nx)
  have "rev (dropWhile P (rev (x # xs))) = rev (w @ [x])"
    by (simp only: rev.simps w)
  then have right: "rev (dropWhile P (rev (dropWhile P s))) = x # rev w"
    by (simp only: Cons) simp
  show ?thesis by (simp only: left right)
qed

lemma trim_spec_trim: "trim s = spec_trim s"
  by (simp only: trim_def trimEnd_def trimStart_def spec_trim_def dropWhile_both_ends)

text \<open>
  C6. For every input string, \<open>sanitizeInput\<close> returns what the specification
  describes: the string trimmed, then without its \<open><\<close> and \<open>>\<close> characters,
  then cut to at most 500 characters, in that order.
\<close>

theorem sanitizeInput_is_trim_strip_truncate:
  "sanitizeInput input = spec_sanitize input"
  by (simp add: sanitizeInput_def spec_sanitize_def spec_truncate_def spec_strip_def
      substring_from_0 replaceAllClass_delete trim_spec_trim)

theorem sanitizeInput_is_trim_strip_truncate_witness:
  "sanitizeInput (js ''  <b>Jo</b> Ann '') = js ''bJo/b Ann'' \<and>
   spec_sanitize (js ''  <b>Jo</b> Ann '') = js ''bJo/b Ann''"
  using sanitizeInput_is_trim_strip_truncate [of "js ''  <b>Jo</b> Ann ''"]
  by (simp add: spec_sanitize_def spec_truncate_def spec_strip_def spec_trim_def js_def
      isWhiteSpace_def)

lemma sanitizeInput_filter:
  "sanitizeInput input = take 500 (filter (\<lambda>c. \<not> (c = 0x3C \<or> c = 0x3E)) (trim input))"
  by (simp add: sanitizeInput_def substring_from_0 replaceAllClass_delete)

lemma angleBrackets_sanitizeInput: "angleBrackets (sanitizeInput input) = []"
  unfolding angleBrackets_def sanitizeInput_filter
  by (auto simp: filter_empty_conv dest: in_set_takeD)

lemma angleBrackets_trim: "angleBrackets (trim s) = angleBrackets s"
proof -
  have ws: "\<And>c. isWhiteSpace c \<Longrightarrow> \<not> (c = 0x3C \<or> c = 0x3E)"
    by (auto simp: isWhiteSpace_def)
  have drop: "\<And>s. angleBrackets (dropWhile isWhiteSpace s) = angleBrackets s"
  proof -
    fix s :: jsstring
    have "angleBrackets s = angleBrackets (takeWhile isWhiteSpace s @ dropWhile isWhiteSpace s)"
      by simp
    also have "\<dots> = angleBrackets (takeWhile isWhiteSpace s) @ angleBrackets (dropWhile isWhiteSpace s)"
      by (simp only: angleBrackets_def filter_append)
    also have "angleBrackets (takeWhile isWhiteSpace s) = []"
      using ws by (auto simp: angleBrackets_def filter_empty_conv dest: set_takeWhileD)
    finally show "angleBrackets (dropWhile isWhiteSpace s) = angleBrackets s" by simp
  qed
  have "angleBrackets (trim s) = rev (angleBrackets (dropWhile isWhiteSpace (rev (dropWhile isWhiteSpace s))))"
    by (simp add: trim_def trimEnd_def trimStart_def angleBrackets_def rev_filter)
  also have "\<dots> = rev (angleBrackets (rev (dropWhile isWhiteSpace s)))" by (simp only: drop)
  also have "\<dots> = angleBrackets (dropWhile isWhiteSpace s)" by (simp add: angleBrackets_def rev_filter)
  finally show ?thesis by (simp only: drop)
qed

lemma set_first_piece_split: "set (first_piece (split sep s)) \<subseteq> set s"
  by (induction s) (auto simp: first_piece_def split: list.splits if_splits)

lemma angleBrackets_firstName: "angleBrackets userName = [] \<Longrightarrow> angleBrackets (firstName userName) = []"
  using set_first_piece_split [of "0x20" userName]
  by (auto simp: angleBrackets_def filter_empty_conv firstName_def)

lemma angleBrackets_roleText: "angleBrackets (roleText role) = []"
  by (simp add: angleBrackets_def roleText_def js_def)

lemma angleBrackets_append: "angleBrackets (a @ b) = angleBrackets a @ angleBrackets b"
  by (simp add: angleBrackets_def)

text \<open>
  C9. For every input string, the output of \<open>sanitizeInput\<close> holds no \<open><\<close>
  and no \<open>>\<close> and has at most 500 code units. So the email rendered from a sanitized
  name and a sanitized role has exactly the angle brackets of the fixed template text, in
  the same order: the substituted values open and close no tag.
\<close>

theorem sanitizeInput_no_tags:
  "0x3C \<notin> set (sanitizeInput input) \<and> 0x3E \<notin> set (sanitizeInput input) \<and>
   length (sanitizeInput input) \<le> 500 \<and>
   angleBrackets (getEmailTemplate (sanitizeInput userName) (sanitizeInput userRole)) =
     angleBrackets (templateHead @ templateMiddle @ templateTail)"
proof -
  have "set (sanitizeInput input) \<subseteq> {c. \<not> (c = 0x3C \<or> c = 0x3E)}"
    unfolding sanitizeInput_filter by (auto dest: in_set_takeD)
  moreover have "length (sanitizeInput input) \<le> 500"
    unfolding sanitizeInput_filter by simp
  moreover have "angleBrackets (getEmailTemplate (sanitizeInput userName) (sanitizeInput userRole)) =
     angleBrackets (templateHead @ templateMiddle @ templateTail)"
    by (simp add: getEmailTemplate_def angleBrackets_trim angleBrackets_append
        angleBrackets_firstName angleBrackets_sanitizeInput angleBrackets_roleText)
  ultimately show ?thesis by auto
qed

theorem sanitizeInput_no_tags_witness:
  "sanitizeInput (js ''<script>x</script> y'') = js ''scriptx/script y'' \<and>
   firstName (js ''scriptx/script y'') = js ''scriptx/script'' \<and>
   angleBrackets (getEmailTemplate (sanitizeInput (js ''<script>x</script> y''))
       (sanitizeInput (js ''<b>artist</b>''))) =
     angleBrackets (templateHead @ templateMiddle @ templateTail)"
proof -
  have a: "sanitizeInput (js ''<script>x</script> y'') = js ''scriptx/script y''"
    by (simp add: sanitizeInput_filter trim_def trimStart_def trimEnd_def js_def
        isWhiteSpace_def)
  have b: "firstName (js ''scriptx/script y'') = js ''scriptx/script''"
    by (simp add: firstName_def first_piece_def js_def)
  show ?thesis
    using a b
      sanitizeInput_no_tags [of "js ''x''" "js ''<script>x</script> y''" "js ''<b>artist</b>''"]
    by (simp only: simp_thms)
qed

section \<open>Properties of the waitlist form\<close>

text \<open>
  C5. For every form whose name has trimmed length below 2, \<open>validate\<close> reports an error
  for the name; for every form whose name has trimmed length 2 or more it reports none; and
  the other fields have no part in it: changing email, phone and category leaves the
  name's entry as it was.
\<close>

theorem validate_name_error:
  "(length (trim (name data)) < 2 \<longrightarrow> map_of (validate data) NameField \<noteq> None) \<and>
   (2 \<le> length (trim (name data)) \<longrightarrow> map_of (validate data) NameField = None) \<and>
   map_of (validate (data\<lparr>email := e, phone := p, category := c\<rparr>)) NameField =
     map_of (validate data) NameField"
  by (auto simp: validate_def map_add_def split: option.splits)

theorem validate_name_error_witness:
  "length (trim (js '' J '')) < 2 \<and>
   map_of (validate \<lparr>name = js '' J '', email = js ''a@b.c'', phone = js ''+91 98765 43210'',
                      category = Artist\<rparr>) NameField \<noteq> None \<and>
   2 \<le> length (trim (js '' Jo '')) \<and>
   map_of (validate \<lparr>name = js '' Jo '', email = [], phone = [], category = Unselected\<rparr>)
     NameField = None"
proof -
  have a: "length (trim (js '' J '')) < 2" and b: "2 \<le> length (trim (js '' Jo ''))"
    by (simp_all add: trim_def trimStart_def trimEnd_def js_def isWhiteSpace_def)
  show ?thesis
    using a b
      validate_name_error
        [of "\<lparr>name = js '' J '', email = js ''a@b.c'', phone = js ''+91 98765 43210'',
               category = Artist\<rparr>"]
      validate_name_error
        [of "\<lparr>name = js '' Jo '', email = [], phone = [], category = Unselected\<rparr>"]
    by simp
qed

text \<open>
  C7. \<open>submitToHubSpot\<close> returns \<open>true\<close> exactly when \<open>fetch\<close> resolves with a
  status from 200 to 299; in every other case (a rejected \<open>fetch\<close>, another status) it
  returns \<open>false\<close>; no exception leaves it.
\<close>

theorem submitToHubSpot_true_iff_2xx:
  "(submitToHubSpot eng fetch href data = Inr True \<longleftrightarrow>
      (\<exists>code content. fetch (hubSpotRequest eng href data) = Resolved code content \<and>
         200 \<le> code \<and> code \<le> 299)) \<and>
   (submitToHubSpot eng fetch href data = Inr False \<longleftrightarrow>
      \<not> (\<exists>code content. fetch (hubSpotRequest eng href data) = Resolved code content \<and>
         200 \<le> code \<and> code \<le> 299)) \<and>
   (\<forall>e. submitToHubSpot eng fetch href data \<noteq> Inl e)"
  by (auto simp: submitToHubSpot_def statusOk_def split: fetch_result.splits)

theorem submitToHubSpot_true_iff_2xx_witness:
  "submitToHubSpot exampleEngine (\<lambda>r. Resolved 204 (BodyText [])) (js ''https://mimora.co.in/'')
      validForm = Inr True \<and>
   submitToHubSpot exampleEngine (\<lambda>r. Resolved 400 (BodyText [])) (js ''https://mimora.co.in/'')
      validForm = Inr False \<and>
   submitToHubSpot exampleEngine (\<lambda>r. Rejected TypeError) (js ''https://mimora.co.in/'')
      validForm = Inr False"
  using
    submitToHubSpot_true_iff_2xx
      [of exampleEngine "\<lambda>r. Resolved 204 (BodyText [])" "js ''https://mimora.co.in/''" validForm]
    submitToHubSpot_true_iff_2xx
      [of exampleEngine "\<lambda>r. Resolved 400 (BodyText [])" "js ''https://mimora.co.in/''" validForm]
    submitToHubSpot_true_iff_2xx
      [of exampleEngine "\<lambda>r. Rejected TypeError" "js ''https://mimora.co.in/''" validForm]
  by simp

text \<open>
  C8, as the claim states it, fails: a stored text that is valid JSON but has not the shape
  of \<open>StoredWaitlistData\<close> (here \<open>{}\<close> and \<open>42\<close>) is returned as it was parsed, not
  \<open>null\<close>.
\<close>

theorem getStoredSubmission_wrong_shape_counterexample:
  "\<not> isStoredWaitlistData (Object []) \<and>
   getStoredSubmission (Available [WAITLIST_STORAGE_KEY \<mapsto> js ''{}'']) = Inr (Object []) \<and>
   \<not> isStoredWaitlistData (Number 42) \<and>
   getStoredSubmission (Available [WAITLIST_STORAGE_KEY \<mapsto> js ''42'']) = Inr (Number 42)"
proof -
  have "JSON_parse (js ''{}'') = Inr (Object [])" and "JSON_parse (js ''42'') = Inr (Number 42)"
    by code_simp+
  then show ?thesis
    by (simp add: getStoredSubmission_def getStoredSubmission_try_def) (simp add: js_def)
qed

text \<open>
  C8, amended. \<open>getStoredSubmission\<close> never throws, and every failing read gives
  \<open>null\<close>: when the storage is unavailable, when nothing is stored under the key, when
  the stored text is empty and when the stored text is not valid JSON.
\<close>

theorem getStoredSubmission_null_on_failure:
  "(\<exists>v. getStoredSubmission localStorage = Inr v) \<and>
   (localStorage = Unavailable \<longrightarrow> getStoredSubmission localStorage = Inr Null) \<and>
   (\<forall>items. localStorage = Available items \<longrightarrow> items WAITLIST_STORAGE_KEY = None \<longrightarrow>
      getStoredSubmission localStorage = Inr Null) \<and>
   (\<forall>items raw e. localStorage = Available items \<longrightarrow> items WAITLIST_STORAGE_KEY = Some raw \<longrightarrow>
      raw = [] \<or> JSON_parse raw = Inl e \<longrightarrow>
      getStoredSubmission localStorage = Inr Null)"
  by (cases localStorage)
    (auto simp: getStoredSubmission_def getStoredSubmission_try_def
      split: option.splits sum.splits)

theorem getStoredSubmission_null_on_failure_witness:
  "getStoredSubmission Unavailable = Inr Null \<and>
   getStoredSubmission (Available Map.empty) = Inr Null \<and>
   getStoredSubmission (Available [WAITLIST_STORAGE_KEY \<mapsto> []]) = Inr Null \<and>
   JSON_parse (js ''{oops'') = Inl SyntaxError \<and>
   getStoredSubmission (Available [WAITLIST_STORAGE_KEY \<mapsto> js ''{oops'']) = Inr Null"
proof -
  have p: "JSON_parse (js ''{oops'') = Inl SyntaxError"
    by code_simp
  show ?thesis
    using p getStoredSubmission_null_on_failure [of Unavailable]
      getStoredSubmission_null_on_failure [of "Available Map.empty"]
      getStoredSubmission_null_on_failure [of "Available [WAITLIST_STORAGE_KEY \<mapsto> []]"]
      getStoredSubmission_null_on_failure [of "Available [WAITLIST_STORAGE_KEY \<mapsto> js ''{oops'']"]
    by simp
qed

lemma validate_validForm: "validate validForm = []"
  unfolding validForm_def by code_simp

text \<open>
  C3, as the claim states it, fails: with a form that passes validation and a CRM call that
  answers 200, a \<open>localStorage\<close> that refuses access makes \<open>storeSubmission\<close> throw;
  the exception leaves \<open>handleSubmit\<close>, nothing is cached and the slider still shows the
  form.
\<close>

theorem handleSubmit_unavailable_storage_counterexample:
  "validate (formData openSlider) = [] \<and>
   submitToHubSpot exampleEngine (\<lambda>r. Resolved 200 (BodyText [])) (js ''https://mimora.co.in/'')
     (formData openSlider) = Inr True \<and>
   handleSubmit exampleEngine (\<lambda>r. Resolved 200 (BodyText [])) (js ''https://mimora.co.in/'')
     (js ''2025-01-01T00:00:00.000Z'') openSlider Unavailable =
       (openSlider\<lparr>touched := {NameField, EmailField, PhoneField, CategoryField}\<rparr>,
        Unavailable, Some StorageError) \<and>
   isSuccess (openSlider\<lparr>touched := {NameField, EmailField, PhoneField, CategoryField}\<rparr>) = False \<and>
   shown (openSlider\<lparr>touched := {NameField, EmailField, PhoneField, CategoryField}\<rparr>) = Form"
proof -
  have v: "validate (formData openSlider) = []"
    by (simp add: openSlider_def validate_validForm)
  have ok: "submitToHubSpot exampleEngine (\<lambda>r. Resolved 200 (BodyText []))
      (js ''https://mimora.co.in/'') (formData openSlider) = Inr True"
    by (simp add: submitToHubSpot_def statusOk_def)
  have h: "handleSubmit exampleEngine (\<lambda>r. Resolved 200 (BodyText [])) (js ''https://mimora.co.in/'')
     (js ''2025-01-01T00:00:00.000Z'') openSlider Unavailable =
       (openSlider\<lparr>touched := {NameField, EmailField, PhoneField, CategoryField}\<rparr>,
        Unavailable, Some StorageError)"
    by (simp add: handleSubmit_def handleSubmit_begin_def handleSubmit_resume_def v ok
        storeSubmission_def)
      (simp add: openSlider_def)
  have s: "isSuccess (openSlider\<lparr>touched := {NameField, EmailField, PhoneField, CategoryField}\<rparr>) = False"
    "shown (openSlider\<lparr>touched := {NameField, EmailField, PhoneField, CategoryField}\<rparr>) = Form"
    by (simp_all add: openSlider_def shown_def)
  from v ok h s show ?thesis by (intro conjI)
qed

text \<open>
  C3, amended. For every form on which \<open>validate\<close> returns no errors, submitted from a
  slider that shows the form: the two branches after the CRM call do the same, whatever
  \<open>submitToHubSpot\<close> resolved to; and when \<open>localStorage\<close> accepts the write, the
  submit attempt writes the submission under the storage key and the slider shows Success,
  whatever \<open>fetch\<close> did.
\<close>

theorem handleSubmit_success_when_stored:
  assumes "validate (formData s) = []" and "shown s = Form"
  shows "handleSubmit_resume eng isoNow True (fst (handleSubmit_begin s)) localStorage =
           handleSubmit_resume eng isoNow False (fst (handleSubmit_begin s)) localStorage \<and>
         handleSubmit eng fetch href isoNow s (Available items) =
           (s\<lparr>touched := {NameField, EmailField, PhoneField, CategoryField}, errors := [],
               isSubmitting := False, isSuccess := True\<rparr>,
            Available (items(WAITLIST_STORAGE_KEY \<mapsto>
               serialize eng (Object [(js ''name'', String (name (formData s))),
                  (js ''email'', String (email (formData s))),
                  (js ''submittedAt'', String isoNow)]))),
            None) \<and>
         shown (fst (handleSubmit eng fetch href isoNow s (Available items))) = Success"
proof -
  have same: "handleSubmit_resume eng isoNow True (fst (handleSubmit_begin s)) localStorage =
           handleSubmit_resume eng isoNow False (fst (handleSubmit_begin s)) localStorage"
    by (simp add: handleSubmit_resume_def)
  have stored: "handleSubmit eng fetch href isoNow s (Available items) =
           (s\<lparr>touched := {NameField, EmailField, PhoneField, CategoryField}, errors := [],
               isSubmitting := False, isSuccess := True\<rparr>,
            Available (items(WAITLIST_STORAGE_KEY \<mapsto>
               serialize eng (Object [(js ''name'', String (name (formData s))),
                  (js ''email'', String (email (formData s))),
                  (js ''submittedAt'', String isoNow)]))),
            None)"
    using assms(1)
    by (cases "fetch (hubSpotRequest eng href (formData s))")
      (simp_all add: handleSubmit_def handleSubmit_begin_def handleSubmit_resume_def
        submitToHubSpot_def storeSubmission_def JSON_stringify_def)
  have form: "\<not> truthy (alreadyJoined s)"
    using assms(2) by (auto simp: shown_def split: if_splits)
  show ?thesis
    using same form by (simp add: stored shown_def)
qed

theorem handleSubmit_success_when_stored_witness:
  "validate (formData openSlider) = [] \<and> shown openSlider = Form \<and>
   shown (fst (handleSubmit exampleEngine (\<lambda>r. Resolved 500 (BodyText []))
     (js ''https://mimora.co.in/'') (js ''2025-01-01T00:00:00.000Z'') openSlider
     (Available Map.empty))) = Success \<and>
   shown (fst (handleSubmit exampleEngine (\<lambda>r. Resolved 200 (BodyText []))
     (js ''https://mimora.co.in/'') (js ''2025-01-01T00:00:00.000Z'') openSlider
     (Available Map.empty))) = Success"
proof -
  have v: "validate (formData openSlider) = []"
    by (simp add: openSlider_def validate_validForm)
  have f: "shown openSlider = Form"
    by (simp add: openSlider_def shown_def)
  have a: "shown (fst (handleSubmit exampleEngine (\<lambda>r. Resolved 500 (BodyText []))
     (js ''https://mimora.co.in/'') (js ''2025-01-01T00:00:00.000Z'') openSlider
     (Available Map.empty))) = Success"
    by (rule conjunct2 [OF conjunct2
      [OF handleSubmit_success_when_stored [OF v f, of exampleEngine _ Unavailable]]])
  have b: "shown (fst (handleSubmit exampleEngine (\<lambda>r. Resolved 200 (BodyText []))
     (js ''https://mimora.co.in/'') (js ''2025-01-01T00:00:00.000Z'') openSlider
     (Available Map.empty))) = Success"
    by (rule conjunct2 [OF conjunct2
      [OF handleSubmit_success_when_stored [OF v f, of exampleEngine _ Unavailable]]])
  from v f a b show ?thesis by (intro conjI)
qed

section \<open>Properties of the email endpoint\<close>

lemma handler_not_post:
  "requestMethod req \<noteq> Some (js ''POST'') \<Longrightarrow> requestMethod req \<noteq> Some (js ''OPTIONS'') \<Longrightarrow>
     status (fst (handler eng env sendMail now req emailAttempts)) = 405"
  by (simp add: handler_def)

lemma handler_missing_field:
  assumes "requestMethod req = Some (js ''POST'')" "\<not> unset (SMTP_USER env)" "\<not> unset (SMTP_PASS env)"
    and "getProp (body req) (js ''name'') = Inr n" "getProp (body req) (js ''email'') = Inr e"
      "getProp (body req) (js ''role'') = Inr r"
    and "\<not> truthy n \<or> \<not> truthy e \<or> \<not> truthy r"
  shows "status (fst (handler eng env sendMail now req emailAttempts)) = 400"
  using assms by (auto simp: handler_def handler_try_def js_def)

lemma handler_invalid_role:
  assumes "requestMethod req = Some (js ''POST'')" "\<not> unset (SMTP_USER env)" "\<not> unset (SMTP_PASS env)"
    and "getProp (body req) (js ''name'') = Inr (String n)" "getProp (body req) (js ''email'') = Inr (String e)"
      "getProp (body req) (js ''role'') = Inr (String r)"
    and "sanitizeInput r \<noteq> js ''artist''" "sanitizeInput r \<noteq> js ''customer''"
  shows "status (fst (handler eng env sendMail now req emailAttempts)) = 400"
  using assms by (auto simp: handler_def handler_try_def js_def Let_def)

lemma sanitizeInput_examples:
  "sanitizeInput (js ''Jo'') = js ''Jo''"
  "sanitizeInput (js ''jo@x.com'') = js ''jo@x.com''"
  "sanitizeInput (js ''artist'') = js ''artist''"
  "sanitizeInput (js ''manager'') = js ''manager''"
  by (simp_all add: sanitizeInput_def substring_def replaceAllClass_def trim_def trimStart_def
      trimEnd_def js_def isWhiteSpace_def)

lemma toLowerCase_example: "toLowerCase f (js ''jo@x.com'') = js ''jo@x.com''"
  by (simp add: toLowerCase_def js_def asciiLower_def)

lemma emailRegex_example: "test emailRegex (js ''jo@x.com'')"
  by code_simp

lemma literal_facts:
  "js ''Jo'' \<noteq> []" "js ''jo@x.com'' \<noteq> []" "js ''artist'' \<noteq> []" "js ''manager'' \<noteq> []"
  "js ''POST'' \<noteq> js ''OPTIONS''" "js ''GET'' \<noteq> js ''OPTIONS''" "js ''GET'' \<noteq> js ''POST''"
  "length (js ''Jo'') = 2" "js ''manager'' \<noteq> js ''artist''" "js ''manager'' \<noteq> js ''customer''"
  "js ''artist'' \<noteq> js ''customer''"
  by (simp_all add: js_def)

lemma joPayload_props:
  "getProp (joPayload n r) (js ''name'') = Inr n"
  "getProp (joPayload n r) (js ''email'') = Inr (String (js ''jo@x.com''))"
  "getProp (joPayload n r) (js ''role'') = Inr r"
  by (simp_all add: joPayload_def js_def)

lemma handler_jo:
  assumes "requestMethod req = Some (js ''POST'')" "\<not> unset (SMTP_USER env)" "\<not> unset (SMTP_PASS env)"
    and "body req = joPayload (String (js ''Jo'')) (String (js ''artist''))"
  shows "handler eng env sendMail now req emailAttempts =
     (case isRateLimited now (js ''jo@x.com'') emailAttempts of
        (True, emailAttempts') \<Rightarrow>
           (\<lparr>status = 429, responseHeaders = corsHeaders req,
             responseBody = Some (errorBody (js ''Too many requests. Please try again later.''))\<rparr>, emailAttempts')
      | (False, emailAttempts') \<Rightarrow>
           (case sendMail
                  \<lparr>host = orElse (SMTP_HOST env) (js ''smtp.gmail.com''),
                   port = parseInt (orElse (SMTP_PORT env) (js ''587'')),
                   secure = False, authUser = SMTP_USER env, authPass = SMTP_PASS env\<rparr>
                  \<lparr>sender = js ''\"'' @ orElse (FROM_NAME env) (js ''Mimora Team'') @ js ''\" <'' @
                      orElse (FROM_EMAIL env) (case SMTP_USER env of None \<Rightarrow> js ''undefined'' | Some u \<Rightarrow> u) @ js ''>'',
                   recipient = js ''jo@x.com'',
                   subject = js ''Welcome to Mimora - You're on the Waitlist! '' @ [0xD83C, 0xDF89],
                   html = getEmailTemplate (js ''Jo'') (js ''artist'')\<rparr> of
              Some e \<Rightarrow> (\<lparr>status = 500, responseHeaders = corsHeaders req,
                           responseBody = Some (failureBody eng env e)\<rparr>, emailAttempts')
            | None \<Rightarrow> (\<lparr>status = 200, responseHeaders = corsHeaders req,
                         responseBody = Some (Object [(js ''success'', Boolean True),
                            (js ''message'', String (js ''Email sent successfully''))])\<rparr>, emailAttempts')))"
  using assms(1-3) literal_facts
  by (simp add: handler_def handler_try_def assms(4) joPayload_props sanitizeInput_examples
      toLowerCase_example emailRegex_example split: prod.splits bool.splits option.splits)

lemma configured: "\<not> unset (SMTP_USER configuredEnv)" "\<not> unset (SMTP_PASS configuredEnv)"
  "unset (SMTP_USER unconfiguredEnv)"
  by (simp_all add: configuredEnv_def unconfiguredEnv_def unset_def js_def)

text \<open>
  C2, as the claim states it, fails. The example request (\<open>POST\<close>, name \<open>Jo\<close>, email
  \<open>jo@x.com\<close>, role \<open>artist\<close>, credentials configured) is answered 429 when the
  address has three attempts within the hour, and 500 when the relay refuses the message.
  A field that is absent is answered 500, not 400, when the credentials are not configured
  or when the request has no body at all. A role that is not a known one is answered 500,
  not 400, when the name is a number.
\<close>

theorem handler_other_status_counterexample:
  "status (fst (handler exampleEngine configuredEnv acceptingRelay 1000
       (postRequest (joPayload (String (js ''Jo'')) (String (js ''artist''))))
       [js ''jo@x.com'' \<mapsto> [100, 200, 300]])) = 429 \<and>
   status (fst (handler exampleEngine configuredEnv refusingRelay 1000
       (postRequest (joPayload (String (js ''Jo'')) (String (js ''artist'')))) Map.empty)) = 500 \<and>
   status (fst (handler exampleEngine unconfiguredEnv acceptingRelay 1000
       (postRequest (Object [])) Map.empty)) = 500 \<and>
   status (fst (handler exampleEngine configuredEnv acceptingRelay 1000
       (postRequest Undefined) Map.empty)) = 500 \<and>
   status (fst (handler exampleEngine configuredEnv acceptingRelay 1000
       (postRequest (joPayload (Number 5) (String (js ''manager'')))) Map.empty)) = 500"
proof -
  have post: "\<And>b. requestMethod (postRequest b) = Some (js ''POST'')" "\<And>b. body (postRequest b) = b"
    by (simp_all add: postRequest_def)
  have limited: "isRateLimited 1000 (js ''jo@x.com'') [js ''jo@x.com'' \<mapsto> [100, 200, 300]]
      = (True, [js ''jo@x.com'' \<mapsto> [100, 200, 300]])"
    by (simp add: isRateLimited_def)
  have fresh: "isRateLimited 1000 (js ''jo@x.com'') Map.empty = (False, [js ''jo@x.com'' \<mapsto> [1000]])"
    by (simp add: isRateLimited_def)
  have a: "status (fst (handler exampleEngine configuredEnv acceptingRelay 1000
       (postRequest (joPayload (String (js ''Jo'')) (String (js ''artist''))))
       [js ''jo@x.com'' \<mapsto> [100, 200, 300]])) = 429"
    by (simp add: handler_jo [OF post(1) configured(1,2) post(2)] limited)
  have b: "status (fst (handler exampleEngine configuredEnv refusingRelay 1000
       (postRequest (joPayload (String (js ''Jo'')) (String (js ''artist'')))) Map.empty)) = 500"
    by (simp add: handler_jo [OF post(1) configured(1,2) post(2)] fresh refusingRelay_def)
  have c: "status (fst (handler exampleEngine unconfiguredEnv acceptingRelay 1000
       (postRequest (Object [])) Map.empty)) = 500"
    using configured(3) literal_facts by (simp add: handler_def post)
  have d: "status (fst (handler exampleEngine configuredEnv acceptingRelay 1000
       (postRequest Undefined) Map.empty)) = 500"
    using configured(1,2) literal_facts by (simp add: handler_def handler_try_def post)
  have e: "status (fst (handler exampleEngine configuredEnv acceptingRelay 1000
       (postRequest (joPayload (Number 5) (String (js ''manager'')))) Map.empty)) = 500"
    using configured(1,2) literal_facts
    by (simp add: handler_def handler_try_def post joPayload_props)
  from a b c d e show ?thesis by (intro conjI)
qed

text \<open>
  C2, amended. The handler answers 405 to every method other than \<open>POST\<close> and
  \<open>OPTIONS\<close>. To a \<open>POST\<close> with the relay credentials configured and a body whose
  properties can be read (it is neither \<open>null\<close> nor \<open>undefined\<close>) it answers 400 when
  one of name, email, role is absent or falsy, and, when the three are strings, when the
  sanitized role is neither \<open>artist\<close> nor \<open>customer\<close>. To the example request it
  answers 200 with \<open>success: true\<close> when the address is not rate-limited and the
  relay accepts the message.
\<close>

theorem handler_status_codes:
  "(requestMethod req \<noteq> Some (js ''POST'') \<longrightarrow> requestMethod req \<noteq> Some (js ''OPTIONS'') \<longrightarrow>
      status (fst (handler eng env sendMail now req emailAttempts)) = 405) \<and>
   (requestMethod req = Some (js ''POST'') \<longrightarrow> \<not> unset (SMTP_USER env) \<longrightarrow> \<not> unset (SMTP_PASS env) \<longrightarrow>
      (\<forall>n e r. getProp (body req) (js ''name'') = Inr n \<longrightarrow>
         getProp (body req) (js ''email'') = Inr e \<longrightarrow> getProp (body req) (js ''role'') = Inr r \<longrightarrow>
         (\<not> truthy n \<or> \<not> truthy e \<or> \<not> truthy r) \<longrightarrow>
         status (fst (handler eng env sendMail now req emailAttempts)) = 400) \<and>
      (\<forall>n e r. getProp (body req) (js ''name'') = Inr (String n) \<longrightarrow>
         getProp (body req) (js ''email'') = Inr (String e) \<longrightarrow>
         getProp (body req) (js ''role'') = Inr (String r) \<longrightarrow>
         sanitizeInput r \<noteq> js ''artist'' \<longrightarrow> sanitizeInput r \<noteq> js ''customer'' \<longrightarrow>
         status (fst (handler eng env sendMail now req emailAttempts)) = 400) \<and>
      (body req = joPayload (String (js ''Jo'')) (String (js ''artist'')) \<longrightarrow>
         fst (isRateLimited now (js ''jo@x.com'') emailAttempts) = False \<longrightarrow>
         (\<forall>t m. sendMail t m = None) \<longrightarrow>
         status (fst (handler eng env sendMail now req emailAttempts)) = 200 \<and>
         responseBody (fst (handler eng env sendMail now req emailAttempts)) =
           Some (Object [(js ''success'', Boolean True),
                   (js ''message'', String (js ''Email sent successfully''))])))"
proof (intro conjI impI allI)
  assume "requestMethod req \<noteq> Some (js ''POST'')" "requestMethod req \<noteq> Some (js ''OPTIONS'')"
  then show "status (fst (handler eng env sendMail now req emailAttempts)) = 405"
    by (rule handler_not_post)
next
  fix n e r
  assume "requestMethod req = Some (js ''POST'')" "\<not> unset (SMTP_USER env)" "\<not> unset (SMTP_PASS env)"
    "getProp (body req) (js ''name'') = Inr n" "getProp (body req) (js ''email'') = Inr e"
    "getProp (body req) (js ''role'') = Inr r" "\<not> truthy n \<or> \<not> truthy e \<or> \<not> truthy r"
  then show "status (fst (handler eng env sendMail now req emailAttempts)) = 400"
    by (rule handler_missing_field)
next
  fix n e r
  assume "requestMethod req = Some (js ''POST'')" "\<not> unset (SMTP_USER env)" "\<not> unset (SMTP_PASS env)"
    "getProp (body req) (js ''name'') = Inr (String n)" "getProp (body req) (js ''email'') = Inr (String e)"
    "getProp (body req) (js ''role'') = Inr (String r)"
    "sanitizeInput r \<noteq> js ''artist''" "sanitizeInput r \<noteq> js ''customer''"
  then show "status (fst (handler eng env sendMail now req emailAttempts)) = 400"
    by (rule handler_invalid_role)
next
  assume a: "requestMethod req = Some (js ''POST'')" "\<not> unset (SMTP_USER env)" "\<not> unset (SMTP_PASS env)"
    "body req = joPayload (String (js ''Jo'')) (String (js ''artist''))"
    and b: "fst (isRateLimited now (js ''jo@x.com'') emailAttempts) = False" "\<forall>t m. sendMail t m = None"
  obtain m' where rl: "isRateLimited now (js ''jo@x.com'') emailAttempts = (False, m')"
    using b(1) by (cases "isRateLimited now (js ''jo@x.com'') emailAttempts") simp
  show "status (fst (handler eng env sendMail now req emailAttempts)) = 200"
    by (simp add: handler_jo [OF a] rl b(2))
  show "responseBody (fst (handler eng env sendMail now req emailAttempts)) =
           Some (Object [(js ''success'', Boolean True),
                   (js ''message'', String (js ''Email sent successfully''))])"
    by (simp add: handler_jo [OF a] rl b(2))
qed

theorem handler_status_codes_witness:
  "status (fst (handler exampleEngine configuredEnv acceptingRelay 1000
       \<lparr>requestMethod = Some (js ''GET''), origin = None, body = Undefined\<rparr> Map.empty)) = 405 \<and>
   status (fst (handler exampleEngine configuredEnv acceptingRelay 1000
       (postRequest (Object [(js ''name'', String (js ''Jo''))])) Map.empty)) = 400 \<and>
   status (fst (handler exampleEngine configuredEnv acceptingRelay 1000
       (postRequest (joPayload (String (js ''Jo'')) (String (js ''manager'')))) Map.empty)) = 400 \<and>
   status (fst (handler exampleEngine configuredEnv acceptingRelay 1000
       (postRequest (joPayload (String (js ''Jo'')) (String (js ''artist'')))) Map.empty)) = 200"
proof -
  have get: "requestMethod \<lparr>requestMethod = Some (js ''GET''), origin = None, body = Undefined\<rparr>
      \<noteq> Some (js ''POST'')"
    "requestMethod \<lparr>requestMethod = Some (js ''GET''), origin = None, body = Undefined\<rparr>
      \<noteq> Some (js ''OPTIONS'')"
    by (simp_all add: literal_facts)
  have post: "\<And>b. requestMethod (postRequest b) = Some (js ''POST'')" "\<And>b. body (postRequest b) = b"
    by (simp_all add: postRequest_def)
  have absent: "getProp (Object [(js ''name'', String (js ''Jo''))]) (js ''name'') = Inr (String (js ''Jo''))"
    "getProp (Object [(js ''name'', String (js ''Jo''))]) (js ''email'') = Inr Undefined"
    "getProp (Object [(js ''name'', String (js ''Jo''))]) (js ''role'') = Inr Undefined"
    by (simp_all add: js_def)
  have fresh: "fst (isRateLimited 1000 (js ''jo@x.com'') Map.empty) = False"
    by (simp add: isRateLimited_def)
  have relay: "\<forall>t m. acceptingRelay t m = None"
    by (simp add: acceptingRelay_def)
  show ?thesis
    using get post absent fresh relay configured literal_facts joPayload_props sanitizeInput_examples
      handler_status_codes [where req = "\<lparr>requestMethod = Some (js ''GET''), origin = None, body = Undefined\<rparr>"
            and eng = exampleEngine and env = configuredEnv and sendMail = acceptingRelay
            and now = 1000 and emailAttempts = Map.empty]
      handler_status_codes [where req = "postRequest (Object [(js ''name'', String (js ''Jo''))])"
            and eng = exampleEngine and env = configuredEnv and sendMail = acceptingRelay
            and now = 1000 and emailAttempts = Map.empty]
      handler_status_codes [where req = "postRequest (joPayload (String (js ''Jo'')) (String (js ''manager'')))"
            and eng = exampleEngine and env = configuredEnv and sendMail = acceptingRelay
            and now = 1000 and emailAttempts = Map.empty]
      handler_status_codes [where req = "postRequest (joPayload (String (js ''Jo'')) (String (js ''artist'')))"
            and eng = exampleEngine and env = configuredEnv and sendMail = acceptingRelay
            and now = 1000 and emailAttempts = Map.empty]
    by simp
qed

section \<open>Properties of the email service of the client\<close>





end
